theory Spec2Isabelle
  imports Complex_Main "HOL-Library.Word" "HOL-Library.AList"
begin

text \<open>
  A shallow embedding of the PQC benchmark suite: the stats aggregator, the algorithm
  adapter, the resource monitor and the benchmark engine (\<^verbatim>\<open>src/runner.py\<close>,
  \<^verbatim>\<open>src/algorithms.py\<close>, \<^verbatim>\<open>src/monitor.py\<close>). Functions keep their Python names; a
  leading underscore is dropped (\<^verbatim>\<open>_calculate_stats\<close> is \<open>calculate_stats\<close>), and a
  method is prefixed by its class where two classes share the name.
\<close>

section \<open>Exceptions\<close>

text \<open>
  Every exception the benchmark suite can meet is a value of \<open>exn\<close>. Python's class
  hierarchy matters in three places: \<^verbatim>\<open>except Exception\<close> does not catch
  \<^verbatim>\<open>KeyboardInterrupt\<close> or \<^verbatim>\<open>SystemExit\<close> (they derive from
  \<^verbatim>\<open>BaseException\<close> only), \<^verbatim>\<open>except ImportError\<close> catches import failures
  only, and \<^verbatim>\<open>except psutil.NoSuchProcess\<close> catches that class only.
  \<open>OtherException\<close> stands for any further subclass of \<^verbatim>\<open>Exception\<close> a provider or
  the operating system may raise, tagged by its message.
\<close>

datatype exn =
    StatisticsError
  | ImportError
  | NotImplementedError
  | ValueError
  | TypeError
  | AttributeError
  | NoSuchProcess
  | AccessDenied
  | OtherException string
  | KeyboardInterrupt
  | SystemExit

fun is_Exception :: "exn \<Rightarrow> bool" where
  "is_Exception KeyboardInterrupt = False"
| "is_Exception SystemExit = False"
| "is_Exception _ = True"

section \<open>Stats aggregator (runner.py, \<^verbatim>\<open>_calculate_stats\<close>)\<close>

text \<open>
  Durations arrive as integer nanoseconds and are divided by \<^verbatim>\<open>1000.0\<close>. The model
  computes with exact reals where Python computes with binary floating point; rounding and
  float overflow are outside the model.
\<close>

record StatSummary =
  avg_us :: real
  median_us :: real
  p99_us :: "real option"
  min_us :: real
  max_us :: real
  std_dev_us :: real
  throughput_ops_sec :: real

text \<open>\<^verbatim>\<open>statistics.mean\<close>: raises \<^verbatim>\<open>StatisticsError\<close> on fewer than one data point.\<close>

definition mean :: "real list \<Rightarrow> exn + real" where
  "mean data =
     (if length data < 1 then Inl StatisticsError
      else Inr (sum_list data / real (length data)))"

text \<open>\<^verbatim>\<open>statistics.median\<close>: the middle of the sorted data, the average of the two middle
  values when the count is even.\<close>

definition median :: "real list \<Rightarrow> exn + real" where
  "median data =
     (let sdata = sort data; n = length sdata
      in if n = 0 then Inl StatisticsError
         else if n mod 2 = 1 then Inr (sdata ! (n div 2))
         else let i = n div 2 in Inr ((sdata ! (i - 1) + sdata ! i) / 2))"

text \<open>\<^verbatim>\<open>statistics.stdev\<close>: the sample standard deviation; raises on fewer than two
  data points.\<close>

definition stdev :: "real list \<Rightarrow> exn + real" where
  "stdev data =
     (let n = length data
      in if n < 2 then Inl StatisticsError
         else let m = sum_list data / real n;
                  ss = sum_list (map (\<lambda>x. (x - m)\<^sup>2) data)
              in Inr (sqrt (ss / real (n - 1))))"

text \<open>
  Modelled from the spec: \<^verbatim>\<open>numpy.percentile(a, q)\<close> is a library function whose
  source is not part of the repository. It is modelled with the default method (linear),
  as the specification words it and as numpy documents it: the virtual index is
  \<open>(n - 1) * q / 100\<close>, and the result interpolates linearly between the order statistics at its floor and at the next index (clipped to
  \<open>n - 1\<close>). A percentage outside \<open>[0, 100]\<close> raises \<^verbatim>\<open>ValueError\<close>; an empty
  array gives \<^verbatim>\<open>nan\<close>, which is \<open>None\<close> here.
\<close>

definition percentile :: "real list \<Rightarrow> real \<Rightarrow> exn + real option" where
  "percentile a q =
     (if q < 0 \<or> 100 < q then Inl ValueError
      else if a = [] then Inr None
      else let arr = sort a; n = length arr;
               virtual_index = real (n - 1) * (q / 100);
               previous_index = nat \<lfloor>virtual_index\<rfloor>;
               next_index = min (previous_index + 1) (n - 1);
               gamma = virtual_index - real previous_index
           in Inr (Some (arr ! previous_index
                          + (arr ! next_index - arr ! previous_index) * gamma)))"

text \<open>Python's builtin \<^verbatim>\<open>min\<close> and \<^verbatim>\<open>max\<close> raise \<^verbatim>\<open>ValueError\<close> on an
  empty sequence.\<close>

definition py_min :: "real list \<Rightarrow> exn + real" where
  "py_min xs = (if xs = [] then Inl ValueError else Inr (Min (set xs)))"

definition py_max :: "real list \<Rightarrow> exn + real" where
  "py_max xs = (if xs = [] then Inl ValueError else Inr (Max (set xs)))"

text \<open>Sequencing of calls that may raise: the first error ends the computation.\<close>

definition bind_exn :: "exn + 'a \<Rightarrow> ('a \<Rightarrow> exn + 'b) \<Rightarrow> exn + 'b" where
  "bind_exn m f = (case m of Inl e \<Rightarrow> Inl e | Inr x \<Rightarrow> f x)"

text \<open>
  The dictionary display of \<^verbatim>\<open>_calculate_stats\<close> evaluates its values in the order
  written, so the first call that raises decides the error.
\<close>

definition calculate_stats :: "int list \<Rightarrow> exn + StatSummary" where
  "calculate_stats latencies_ns =
     (let latencies = map (\<lambda>l. real_of_int l / 1000) latencies_ns in
      bind_exn (mean latencies) (\<lambda>avg.
      bind_exn (median latencies) (\<lambda>med.
      bind_exn (percentile latencies 99) (\<lambda>p99.
      bind_exn (py_min latencies) (\<lambda>mn.
      bind_exn (py_max latencies) (\<lambda>mx.
      bind_exn (if length latencies > 1 then stdev latencies else Inr 0) (\<lambda>sd.
      bind_exn (mean latencies) (\<lambda>avg2.
      bind_exn (if avg2 > 0 then bind_exn (mean latencies) (\<lambda>avg3. Inr (1000000 / avg3))
                else Inr 0) (\<lambda>tp.
      Inr \<lparr>avg_us = avg, median_us = med, p99_us = p99, min_us = mn, max_us = mx,
           std_dev_us = sd, throughput_ops_sec = tp\<rparr>)))))))))"


text \<open>The durations in microseconds, as the first line of \<^verbatim>\<open>_calculate_stats\<close>
  computes them.\<close>

definition latencies_us :: "int list \<Rightarrow> real list" where
  "latencies_us ns = map (\<lambda>l. real_of_int l / 1000) ns"

text \<open>The sample sequence 1, 2, ..., 100 microseconds, in the nanoseconds the aggregator
  receives.\<close>

definition one_to_hundred_us :: "int list" where
  "one_to_hundred_us = map (\<lambda>i. i * 1000) [1..100]"

section \<open>Python values and byte strings\<close>

type_synonym bytes = "8 word list"

text \<open>
  The arguments of \<^verbatim>\<open>Signature.verify\<close> are tested with \<^verbatim>\<open>isinstance(x, bytes)\<close>
  and coerced with \<^verbatim>\<open>bytes(x)\<close>, and the provider's \<^verbatim>\<open>verify\<close> and
  \<^verbatim>\<open>open\<close> return whatever they return, so these positions hold Python values.
\<close>

datatype pyval =
    PyBytes bytes
  | PyByteArray bytes
  | PyStr string
  | PyNone
  | PyBool bool
  | PyInt int

text \<open>\<^verbatim>\<open>bytes(x)\<close>: a bytes-like object is copied, a string or \<^verbatim>\<open>None\<close> raises
  \<^verbatim>\<open>TypeError\<close>, a non-negative integer gives that many zero bytes and a negative one
  raises \<^verbatim>\<open>ValueError\<close> (\<^verbatim>\<open>bool\<close> is an integer).\<close>

fun py_bytes :: "pyval \<Rightarrow> exn + bytes" where
  "py_bytes (PyBytes b) = Inr b"
| "py_bytes (PyByteArray b) = Inr b"
| "py_bytes (PyStr s) = Inl TypeError"
| "py_bytes PyNone = Inl TypeError"
| "py_bytes (PyBool b) = Inr (replicate (if b then 1 else 0) 0)"
| "py_bytes (PyInt n) = (if n < 0 then Inl ValueError else Inr (replicate (nat n) 0))"

text \<open>\<^verbatim>\<open>if not isinstance(x, bytes): x = bytes(x)\<close>: a bytes object is kept,
  anything else goes through \<^verbatim>\<open>bytes(x)\<close>.\<close>

fun ensure_bytes :: "pyval \<Rightarrow> exn + bytes" where
  "ensure_bytes (PyBytes b) = Inr b"
| "ensure_bytes x = py_bytes x"

text \<open>\<^verbatim>\<open>res == message\<close> with \<^verbatim>\<open>message\<close> a bytes object: bytes and bytearrays
  compare by content, every other value is unequal to a bytes object.\<close>

fun eq_bytes :: "pyval \<Rightarrow> bytes \<Rightarrow> bool" where
  "eq_bytes (PyBytes b) m = (b = m)"
| "eq_bytes (PyByteArray b) m = (b = m)"
| "eq_bytes _ m = False"

section \<open>The outside world: providers, clocks, logger\<close>

text \<open>
  A provider module is what \<^verbatim>\<open>importlib.import_module\<close> returns. Each attribute may be
  missing (\<open>None\<close>); a present attribute is a function that reads and changes the state
  \<open>'w\<close> of the outside world (its random generator, the interrupt flag) and either
  returns or raises. Keys, ciphertexts and signatures are byte strings.
\<close>

record 'w provider =
  m_generate_keypair :: "('w \<Rightarrow> (exn + bytes \<times> bytes) \<times> 'w) option"
  m_encrypt :: "(bytes \<Rightarrow> 'w \<Rightarrow> (exn + bytes \<times> bytes) \<times> 'w) option"
  m_decrypt :: "(bytes \<Rightarrow> bytes \<Rightarrow> 'w \<Rightarrow> (exn + bytes) \<times> 'w) option"
  m_sign :: "(bytes \<Rightarrow> bytes \<Rightarrow> 'w \<Rightarrow> (exn + bytes) \<times> 'w) option"
  m_verify :: "(bytes \<Rightarrow> bytes \<Rightarrow> bytes \<Rightarrow> 'w \<Rightarrow> (exn + pyval) \<times> 'w) option"
  m_open :: "(bytes \<Rightarrow> bytes \<Rightarrow> 'w \<Rightarrow> (exn + pyval) \<times> 'w) option"

text \<open>One observation of the sampling thread: what each psutil call of one pass of the
  loop returns or raises.\<close>

record tick =
  t_time :: real
  t_process_cpu_percent :: "exn + real"
  t_memory_info :: "exn + nat"
  t_system_cpu_percent :: "exn + real"
  t_cpu_freq :: "exn + real option"

record 'w env =
  perf_counter_ns :: "'w \<Rightarrow> int \<times> 'w"
  time_time :: "'w \<Rightarrow> real \<times> 'w"
  datetime_now :: "'w \<Rightarrow> string \<times> 'w"
  urandom :: "nat \<Rightarrow> 'w \<Rightarrow> bytes \<times> 'w"
  import_module :: "string \<Rightarrow> 'w \<Rightarrow> (exn + 'w provider) \<times> 'w"
  psutil_cpu_percent :: "'w \<Rightarrow> real \<times> 'w"
  sampling_ticks :: "'w \<Rightarrow> tick list \<times> 'w"
  platform_platform :: string
  platform_processor :: string

text \<open>Every call of a logger in the sources is one constructor, with the values its
  message interpolates.\<close>

datatype log_entry =
    Failed_to_load string string exn
  | KeyGen_debug string nat nat
  | Warming_up string int
  | Running_micro_benchmarks string
  | Starting_stability_test real
  | Error_in_stability_test string exn
  | Stability_test_progress int real
  | Stability_test_completed
  | High_cpu_usage real
  | Cpu_usage_normal real
  | Benchmark_interrupted
  | Benchmark_failed exn
  | Results_saved string
  | Monitor_started real
  | Monitor_stopped
  | Monitor_data_saved string
  | Failed_to_save_monitor_data exn

record sample =
  timestamp :: real
  cpu_percent :: real
  memory_rss :: nat
  system_cpu_percent :: real
  cpu_freq_current :: "real option"

text \<open>The \<^verbatim>\<open>SystemMonitor\<close> object.\<close>

record monitor =
  interval :: real
  output_file :: "string option"
  stop_event :: bool
  data_points :: "sample list"
  thread_started :: bool

record item =
  item_name :: string
  item_implementation :: string
  payload_sizes :: "nat list option"
  message_sizes :: "nat list option"

record config =
  warmup_iterations :: int
  long_run_duration_seconds :: real
  sampling_interval_seconds :: real
  algorithms_kem :: "item list option"
  algorithms_sign :: "item list option"

type_synonym result_record = "(string \<times> StatSummary) list"

record full_results =
  start_time :: string
  end_time :: "string option"
  meta_platform :: string
  meta_processor :: string
  meta_config :: config
  micro_benchmarks :: "(string \<times> result_record) list"

datatype file_content = Monitor_json "sample list" | Results_json full_results

text \<open>
  The state the run threads through: the outside world, the logger calls made so far, the
  files written so far (the file system accepts every write), the monitor object and the
  \<^verbatim>\<open>full_results\<close> dictionary of \<^verbatim>\<open>run\<close>.
\<close>

record 'w state =
  world :: 'w
  logged :: "log_entry list"
  files :: "(string \<times> file_content) list"
  the_monitor :: monitor
  results :: full_results

type_synonym ('a, 'w) action = "'w state \<Rightarrow> (exn + 'a) \<times> 'w state"

definition return_st :: "'a \<Rightarrow> ('a, 'w) action" where
  "return_st x s = (Inr x, s)"

definition raise_st :: "exn \<Rightarrow> ('a, 'w) action" where
  "raise_st e s = (Inl e, s)"

definition bind_st :: "('a, 'w) action \<Rightarrow> ('a \<Rightarrow> ('b, 'w) action) \<Rightarrow> ('b, 'w) action" where
  "bind_st m f s = (case m s of (Inl e, s') \<Rightarrow> (Inl e, s') | (Inr x, s') \<Rightarrow> f x s')"

text \<open>A pure computation that may raise.\<close>

definition lift_exn :: "exn + 'a \<Rightarrow> ('a, 'w) action" where
  "lift_exn r s = (r, s)"

text \<open>A call into the outside world that may raise, and one that cannot.\<close>

definition call :: "('w \<Rightarrow> (exn + 'a) \<times> 'w) \<Rightarrow> ('a, 'w) action" where
  "call f s = (case f (world s) of (r, w') \<Rightarrow> (r, s\<lparr>world := w'\<rparr>))"

definition read_world :: "('w \<Rightarrow> 'a \<times> 'w) \<Rightarrow> ('a, 'w) action" where
  "read_world f s = (case f (world s) of (x, w') \<Rightarrow> (Inr x, s\<lparr>world := w'\<rparr>))"

definition logger :: "log_entry \<Rightarrow> (unit, 'w) action" where
  "logger entry s = (Inr (), s\<lparr>logged := logged s @ [entry]\<rparr>)"

text \<open>\<^verbatim>\<open>try: m except C as e: h e\<close>, where \<open>catches\<close> says which exceptions the class
  \<^verbatim>\<open>C\<close> covers.\<close>

definition try_except ::
  "('a, 'w) action \<Rightarrow> (exn \<Rightarrow> bool) \<Rightarrow> (exn \<Rightarrow> ('a, 'w) action) \<Rightarrow> ('a, 'w) action" where
  "try_except m catches h s =
     (case m s of
        (Inl e, s') \<Rightarrow> if catches e then h e s' else (Inl e, s')
      | (Inr x, s') \<Rightarrow> (Inr x, s'))"

text \<open>\<^verbatim>\<open>for _ in range(n)\<close> with the loop's local variables as accumulator; an
  exception leaves the loop.\<close>

fun for_range :: "nat \<Rightarrow> ('acc \<Rightarrow> ('acc, 'w) action) \<Rightarrow> 'acc \<Rightarrow> ('acc, 'w) action" where
  "for_range 0 body acc s = (Inr acc, s)"
| "for_range (Suc n) body acc s =
     (case body acc s of
        (Inl e, s') \<Rightarrow> (Inl e, s')
      | (Inr acc', s') \<Rightarrow> for_range n body acc' s')"

text \<open>\<^verbatim>\<open>for x in xs\<close>, likewise.\<close>

fun for_each :: "'x list \<Rightarrow> ('x \<Rightarrow> 'acc \<Rightarrow> ('acc, 'w) action) \<Rightarrow> 'acc \<Rightarrow> ('acc, 'w) action" where
  "for_each [] body acc s = (Inr acc, s)"
| "for_each (x # xs) body acc s =
     (case body x acc s of
        (Inl e, s') \<Rightarrow> (Inl e, s')
      | (Inr acc', s') \<Rightarrow> for_each xs body acc' s')"

section \<open>Algorithm adapter (algorithms.py)\<close>

definition PQCRYPTO_MAPPING :: "(string \<times> string) list" where
  "PQCRYPTO_MAPPING =
     [(''ML-KEM-512'', ''pqcrypto.kem.ml_kem_512''),
      (''ML-KEM-768'', ''pqcrypto.kem.ml_kem_768''),
      (''Kyber512'', ''pqcrypto.kem.kyber512''),
      (''Kyber768'', ''pqcrypto.kem.kyber768''),
      (''ML-DSA-44'', ''pqcrypto.sign.ml_dsa_44''),
      (''ML-DSA-65'', ''pqcrypto.sign.ml_dsa_65''),
      (''Dilithium2'', ''pqcrypto.sign.dilithium2''),
      (''Dilithium3'', ''pqcrypto.sign.dilithium3''),
      (''Falcon-512'', ''pqcrypto.sign.falcon_512''),
      (''SPHINCS+-128s-simple'', ''pqcrypto.sign.sphincs_shake_128s_simple'')]"

text \<open>\<^verbatim>\<open>PQCRYPTO_MAPPING.get(name, name)\<close>\<close>

definition mapping_get :: "string \<Rightarrow> string" where
  "mapping_get nm = (case map_of PQCRYPTO_MAPPING nm of Some m \<Rightarrow> m | None \<Rightarrow> nm)"

text \<open>\<^verbatim>\<open>sub in s\<close> on strings.\<close>

fun contains :: "string \<Rightarrow> string \<Rightarrow> bool" where
  "contains [] sub = (sub = [])"
| "contains (c # cs) sub = (take (length sub) (c # cs) = sub \<or> contains cs sub)"

datatype alg_class = KEM | Signature

text \<open>An instance of \<^verbatim>\<open>KEM\<close> or \<^verbatim>\<open>Signature\<close>; \<open>h_module\<close> is \<open>None\<close> when
  \<^verbatim>\<open>_load_module\<close> returned Python's \<^verbatim>\<open>None\<close>.\<close>

record 'w handle =
  h_class :: alg_class
  h_name :: string
  h_implementation :: string
  h_module :: "'w provider option"

definition is_ImportError :: "exn \<Rightarrow> bool" where
  "is_ImportError e = (e = ImportError)"

definition load_module :: "'w env \<Rightarrow> string \<Rightarrow> string \<Rightarrow> ('w provider option, 'w) action" where
  "load_module env nm impl =
     (if impl = ''pqcrypto'' then
        (let module_name = mapping_get nm in
         try_except
           (bind_st (call (import_module env module_name)) (\<lambda>m. return_st (Some m)))
           is_ImportError
           (\<lambda>e. bind_st (logger (Failed_to_load module_name nm e)) (\<lambda>_. raise_st e)))
      else if impl = ''dilithium-py'' then
        (if contains nm ''ML-DSA'' \<or> contains nm ''Dilithium''
         then raise_st NotImplementedError
         else return_st None)
      else raise_st ValueError)"

text \<open>\<^verbatim>\<open>CryptoAlgorithm.__init__\<close>, for the class being instantiated.\<close>

definition CryptoAlgorithm_init ::
  "'w env \<Rightarrow> alg_class \<Rightarrow> string \<Rightarrow> string \<Rightarrow> ('w handle, 'w) action" where
  "CryptoAlgorithm_init env cls nm impl =
     bind_st (load_module env nm impl) (\<lambda>m.
     return_st \<lparr>h_class = cls, h_name = nm, h_implementation = impl, h_module = m\<rparr>)"

text \<open>\<^verbatim>\<open>str.lower\<close> on ASCII letters.\<close>

definition lower :: "string \<Rightarrow> string" where
  "lower s = map (\<lambda>c. if 65 \<le> (of_char c :: nat) \<and> (of_char c :: nat) \<le> 90
                       then char_of ((of_char c :: nat) + 32) else c) s"

definition get_algorithm ::
  "'w env \<Rightarrow> string \<Rightarrow> string \<Rightarrow> string \<Rightarrow> ('w handle, 'w) action" where
  "get_algorithm env alg_type nm impl =
     (if lower alg_type = ''kem'' then CryptoAlgorithm_init env KEM nm impl
      else if lower alg_type = ''sign'' then CryptoAlgorithm_init env Signature nm impl
      else raise_st ValueError)"

text \<open>\<^verbatim>\<open>self.module.attr\<close>: \<^verbatim>\<open>AttributeError\<close> when the module is \<^verbatim>\<open>None\<close> or has
  no such attribute.\<close>

definition getattr :: "'w provider option \<Rightarrow> ('w provider \<Rightarrow> 'f option) \<Rightarrow> exn + 'f" where
  "getattr m sel =
     (case m of
        None \<Rightarrow> Inl AttributeError
      | Some p \<Rightarrow> (case sel p of None \<Rightarrow> Inl AttributeError | Some f \<Rightarrow> Inr f))"

text \<open>\<^verbatim>\<open>hasattr(self.module, attr)\<close>\<close>

definition hasattr :: "'w provider option \<Rightarrow> ('w provider \<Rightarrow> 'f option) \<Rightarrow> bool" where
  "hasattr m sel = (case m of None \<Rightarrow> False | Some p \<Rightarrow> sel p \<noteq> None)"

definition KEM_keygen :: "'w handle \<Rightarrow> (bytes \<times> bytes, 'w) action" where
  "KEM_keygen h =
     bind_st (lift_exn (getattr (h_module h) m_generate_keypair)) (\<lambda>f.
     bind_st (call f) (\<lambda>(pk, sk).
     bind_st (logger (KeyGen_debug (h_name h) (length pk) (length sk))) (\<lambda>_.
     return_st (pk, sk))))"

definition KEM_encaps :: "'w handle \<Rightarrow> bytes \<Rightarrow> (bytes \<times> bytes, 'w) action" where
  "KEM_encaps h public_key =
     bind_st (lift_exn (getattr (h_module h) m_encrypt)) (\<lambda>f.
     bind_st (call (f public_key)) (\<lambda>(ct, ss).
     return_st (ct, ss)))"

definition KEM_decaps :: "'w handle \<Rightarrow> bytes \<Rightarrow> bytes \<Rightarrow> (bytes, 'w) action" where
  "KEM_decaps h ciphertext secret_key =
     bind_st (lift_exn (getattr (h_module h) m_decrypt)) (\<lambda>f.
     call (f secret_key ciphertext))"

definition Signature_keygen :: "'w handle \<Rightarrow> (bytes \<times> bytes, 'w) action" where
  "Signature_keygen h =
     bind_st (lift_exn (getattr (h_module h) m_generate_keypair)) (\<lambda>f.
     bind_st (call f) (\<lambda>(pk, sk).
     return_st (pk, sk)))"

definition Signature_sign :: "'w handle \<Rightarrow> bytes \<Rightarrow> bytes \<Rightarrow> (bytes, 'w) action" where
  "Signature_sign h message secret_key =
     bind_st (lift_exn (getattr (h_module h) m_sign)) (\<lambda>f.
     call (f secret_key message))"

text \<open>
  \<^verbatim>\<open>Signature.verify\<close>. The three coercions stand before the \<^verbatim>\<open>try\<close>; inside it
  \<^verbatim>\<open>except Exception\<close> turns a failure into \<^verbatim>\<open>False\<close>, and the statement after
  the \<^verbatim>\<open>try\<close> returns \<^verbatim>\<open>False\<close> when the module has neither attribute.
\<close>

definition Signature_verify ::
  "'w handle \<Rightarrow> pyval \<Rightarrow> pyval \<Rightarrow> pyval \<Rightarrow> (pyval, 'w) action" where
  "Signature_verify h public_key message signature =
     bind_st (lift_exn (ensure_bytes public_key)) (\<lambda>pk.
     bind_st (lift_exn (ensure_bytes message)) (\<lambda>msg.
     bind_st (lift_exn (ensure_bytes signature)) (\<lambda>sg.
     try_except
       (if hasattr (h_module h) m_verify then
          bind_st (lift_exn (getattr (h_module h) m_verify)) (\<lambda>f. call (f pk msg sg))
        else if hasattr (h_module h) m_open then
          bind_st (lift_exn (getattr (h_module h) m_open)) (\<lambda>g.
          bind_st (call (g pk sg)) (\<lambda>res.
          return_st (PyBool (eq_bytes res msg))))
        else return_st (PyBool False))
       is_Exception
       (\<lambda>e. return_st (PyBool False)))))"

text \<open>Method dispatch on the instance's class; a method the class lacks raises
  \<^verbatim>\<open>AttributeError\<close>.\<close>

definition keygen :: "'w handle \<Rightarrow> (bytes \<times> bytes, 'w) action" where
  "keygen h = (case h_class h of KEM \<Rightarrow> KEM_keygen h | Signature \<Rightarrow> Signature_keygen h)"

definition encaps :: "'w handle \<Rightarrow> bytes \<Rightarrow> (bytes \<times> bytes, 'w) action" where
  "encaps h pk = (case h_class h of KEM \<Rightarrow> KEM_encaps h pk | Signature \<Rightarrow> raise_st AttributeError)"

definition decaps :: "'w handle \<Rightarrow> bytes \<Rightarrow> bytes \<Rightarrow> (bytes, 'w) action" where
  "decaps h ct sk =
     (case h_class h of KEM \<Rightarrow> KEM_decaps h ct sk | Signature \<Rightarrow> raise_st AttributeError)"

definition sign :: "'w handle \<Rightarrow> bytes \<Rightarrow> bytes \<Rightarrow> (bytes, 'w) action" where
  "sign h msg sk =
     (case h_class h of Signature \<Rightarrow> Signature_sign h msg sk | KEM \<Rightarrow> raise_st AttributeError)"

definition verify :: "'w handle \<Rightarrow> bytes \<Rightarrow> bytes \<Rightarrow> bytes \<Rightarrow> (pyval, 'w) action" where
  "verify h pk msg sg =
     (case h_class h of
        Signature \<Rightarrow> Signature_verify h (PyBytes pk) (PyBytes msg) (PyBytes sg)
      | KEM \<Rightarrow> raise_st AttributeError)"

section \<open>Resource monitor (monitor.py)\<close>

definition monitor_init :: "real \<Rightarrow> string option \<Rightarrow> monitor" where
  "monitor_init iv out =
     \<lparr>interval = iv, output_file = out, stop_event = False, data_points = [],
      thread_started = False\<rparr>"

text \<open>
  \<^verbatim>\<open>_monitor_loop\<close>, run over the ticks the thread lives through before the stop event
  is set: the list ends where \<^verbatim>\<open>stop_event.is_set()\<close> first holds. The result is the
  exception that leaves the loop, if any, and the data points appended. Only the memory read
  is guarded (\<^verbatim>\<open>except psutil.NoSuchProcess: break\<close>) and only the frequency read is
  swallowed (\<^verbatim>\<open>except Exception: pass\<close>); the loop calls no logger.
\<close>

fun monitor_loop :: "tick list \<Rightarrow> sample list \<Rightarrow> (exn + unit) \<times> sample list" where
  "monitor_loop [] dps = (Inr (), dps)"
| "monitor_loop (t # ts) dps =
     (case t_process_cpu_percent t of
        Inl e \<Rightarrow> (Inl e, dps)
      | Inr cpu \<Rightarrow>
     (case t_memory_info t of
        Inl e \<Rightarrow> if e = NoSuchProcess then (Inr (), dps) else (Inl e, dps)
      | Inr rss \<Rightarrow>
     (case t_system_cpu_percent t of
        Inl e \<Rightarrow> (Inl e, dps)
      | Inr sys_cpu \<Rightarrow>
     (let metrics = \<lparr>timestamp = t_time t, cpu_percent = cpu, memory_rss = rss,
                     system_cpu_percent = sys_cpu, cpu_freq_current = None\<rparr>
      in case t_cpu_freq t of
           Inl e \<Rightarrow> if is_Exception e then monitor_loop ts (dps @ [metrics]) else (Inl e, dps)
         | Inr None \<Rightarrow> monitor_loop ts (dps @ [metrics])
         | Inr (Some f) \<Rightarrow> monitor_loop ts (dps @ [metrics\<lparr>cpu_freq_current := Some f\<rparr>])))))"

definition monitor_start :: "(unit, 'w) action" where
  "monitor_start s =
     logger (Monitor_started (interval (the_monitor s)))
       (s\<lparr>the_monitor := (the_monitor s)\<lparr>stop_event := False, thread_started := True\<rparr>\<rparr>)"

text \<open>\<^verbatim>\<open>open(path, 'w')\<close> and \<^verbatim>\<open>json.dump\<close>: the file system accepts the write.\<close>

definition write_file :: "string \<Rightarrow> file_content \<Rightarrow> (unit, 'w) action" where
  "write_file path content s = (Inr (), s\<lparr>files := AList.update path content (files s)\<rparr>)"

definition save_data :: "string \<Rightarrow> (unit, 'w) action" where
  "save_data path =
     try_except
       (\<lambda>s. bind_st (write_file path (Monitor_json (data_points (the_monitor s))))
               (\<lambda>_. logger (Monitor_data_saved path)) s)
       is_Exception
       (\<lambda>e. logger (Failed_to_save_monitor_data e))"

text \<open>
  \<^verbatim>\<open>stop\<close>: the sampling thread runs beside the engine and its data points are read only
  after \<^verbatim>\<open>join\<close>, so the model runs the thread's loop at the join, over the ticks the
  world reports. An exception that leaves the loop ends the thread and is not seen by
  \<^verbatim>\<open>join\<close>. The test \<^verbatim>\<open>if self.output_file\<close> fails for \<^verbatim>\<open>None\<close> and for
  the empty string.
\<close>

definition monitor_stop :: "'w env \<Rightarrow> (unit, 'w) action" where
  "monitor_stop env =
     bind_st (\<lambda>s. (Inr (), s\<lparr>the_monitor := (the_monitor s)\<lparr>stop_event := True\<rparr>\<rparr>)) (\<lambda>_.
     bind_st (\<lambda>s. if thread_started (the_monitor s) then
                     bind_st (read_world (sampling_ticks env)) (\<lambda>ticks s'.
                       (Inr (), s'\<lparr>the_monitor := (the_monitor s')
                          \<lparr>data_points := snd (monitor_loop ticks (data_points (the_monitor s')))\<rparr>\<rparr>)) s
                   else (Inr (), s)) (\<lambda>_.
     bind_st (logger Monitor_stopped) (\<lambda>_.
     (\<lambda>s. case output_file (the_monitor s) of
             Some path \<Rightarrow> if path \<noteq> [] then save_data path s else (Inr (), s)
           | None \<Rightarrow> (Inr (), s)))))"

section \<open>Benchmark engine (runner.py)\<close>

record runner =
  r_config :: config
  r_output_dir :: string

text \<open>Decimal digits of a number, for the f-strings that interpolate one.\<close>

fun string_of_nat :: "nat \<Rightarrow> string" where
  "string_of_nat n =
     (if n < 10 then [''0123456789'' ! n]
      else string_of_nat (n div 10) @ [''0123456789'' ! (n mod 10)])"

declare string_of_nat.simps [simp del]

definition measure_time :: "'w env \<Rightarrow> ('a, 'w) action \<Rightarrow> (int, 'w) action" where
  "measure_time env func =
     bind_st (read_world (perf_counter_ns env)) (\<lambda>start.
     bind_st func (\<lambda>_.
     bind_st (read_world (perf_counter_ns env)) (\<lambda>end.
     return_st (end - start))))"

definition run_warmup :: "'w handle \<Rightarrow> int \<Rightarrow> (unit, 'w) action" where
  "run_warmup alg iters =
     bind_st (logger (Warming_up (h_name alg) iters)) (\<lambda>_.
     for_range (nat iters)
       (\<lambda>_. try_except (bind_st (keygen alg) (\<lambda>_. return_st ())) is_Exception
               (\<lambda>e. return_st ()))
       ())"

text \<open>The local \<^verbatim>\<open>iterations = 1000\<close> of \<^verbatim>\<open>run_micro_benchmarks\<close>.\<close>

definition iterations :: nat where
  "iterations = 1000"

text \<open>The three trial loops of \<^verbatim>\<open>run_micro_benchmarks\<close>; the accumulators are the
  latency lists the source appends to.\<close>

definition keygen_trials :: "'w env \<Rightarrow> 'w handle \<Rightarrow> (int list, 'w) action" where
  "keygen_trials env alg =
     for_range iterations
       (\<lambda>latencies. bind_st (measure_time env (keygen alg)) (\<lambda>t.
                     return_st (latencies @ [t])))
       []"

definition kem_trials ::
  "'w env \<Rightarrow> 'w handle \<Rightarrow> bytes \<Rightarrow> bytes \<Rightarrow> (int list \<times> int list, 'w) action" where
  "kem_trials env alg pk sk =
     for_range iterations
       (\<lambda>(enc_latencies, dec_latencies).
          bind_st (read_world (perf_counter_ns env)) (\<lambda>t0.
          bind_st (encaps alg pk) (\<lambda>(ct, ss).
          bind_st (read_world (perf_counter_ns env)) (\<lambda>t1.
          bind_st (read_world (perf_counter_ns env)) (\<lambda>t2.
          bind_st (decaps alg ct sk) (\<lambda>_.
          bind_st (read_world (perf_counter_ns env)) (\<lambda>t3.
          return_st (enc_latencies @ [t1 - t0], dec_latencies @ [t3 - t2]))))))))
       ([], [])"

definition sign_trials ::
  "'w env \<Rightarrow> 'w handle \<Rightarrow> bytes \<Rightarrow> bytes \<Rightarrow> bytes \<Rightarrow> (int list \<times> int list, 'w) action" where
  "sign_trials env alg pk sk message =
     for_range iterations
       (\<lambda>(sign_latencies, verify_latencies).
          bind_st (read_world (perf_counter_ns env)) (\<lambda>t0.
          bind_st (sign alg message sk) (\<lambda>sg.
          bind_st (read_world (perf_counter_ns env)) (\<lambda>t1.
          bind_st (read_world (perf_counter_ns env)) (\<lambda>t2.
          bind_st (verify alg pk message sg) (\<lambda>_.
          bind_st (read_world (perf_counter_ns env)) (\<lambda>t3.
          return_st (sign_latencies @ [t1 - t0], verify_latencies @ [t3 - t2]))))))))
       ([], [])"

text \<open>
  \<^verbatim>\<open>run_micro_benchmarks\<close>, with the aggregator \<^verbatim>\<open>self._calculate_stats\<close> as the
  parameter \<open>calc\<close>: the engine is the instance at \<open>calculate_stats\<close>, and the instance at
  \<open>Inr\<close> shows the sample lists each entry is aggregated over. The \<^verbatim>\<open>results\<close>
  dictionary is an association list in insertion order.
\<close>

definition run_micro_benchmarks_with ::
  "(int list \<Rightarrow> exn + 'r) \<Rightarrow> 'w env \<Rightarrow> 'w handle \<Rightarrow> string \<Rightarrow> item
     \<Rightarrow> ((string \<times> 'r) list, 'w) action" where
  "run_micro_benchmarks_with calc env alg alg_type params =
     bind_st (logger (Running_micro_benchmarks (h_name alg))) (\<lambda>_.
     bind_st (keygen_trials env alg) (\<lambda>latencies.
     bind_st (lift_exn (calc latencies)) (\<lambda>keygen_stats.
     bind_st (keygen alg) (\<lambda>(pk, sk).
     if alg_type = ''kem'' then
       for_each (case payload_sizes params of Some sizes \<Rightarrow> sizes | None \<Rightarrow> [32])
         (\<lambda>size results.
            bind_st (kem_trials env alg pk sk) (\<lambda>(enc_latencies, dec_latencies).
            bind_st (lift_exn (calc enc_latencies)) (\<lambda>enc_stats.
            bind_st (lift_exn (calc dec_latencies)) (\<lambda>dec_stats.
            return_st
              (AList.update (''decaps_size_'' @ string_of_nat size) dec_stats
                (AList.update (''encaps_size_'' @ string_of_nat size) enc_stats results))))))
         [(''keygen'', keygen_stats)]
     else if alg_type = ''sign'' then
       for_each (case message_sizes params of Some sizes \<Rightarrow> sizes | None \<Rightarrow> [32])
         (\<lambda>size results.
            bind_st (read_world (urandom env size)) (\<lambda>message.
            bind_st (sign_trials env alg pk sk message) (\<lambda>(sign_latencies, verify_latencies).
            bind_st (lift_exn (calc sign_latencies)) (\<lambda>sign_stats.
            bind_st (lift_exn (calc verify_latencies)) (\<lambda>verify_stats.
            return_st
              (AList.update (''verify_size_'' @ string_of_nat size) verify_stats
                (AList.update (''sign_size_'' @ string_of_nat size) sign_stats results)))))))
         [(''keygen'', keygen_stats)]
     else return_st [(''keygen'', keygen_stats)]))))"

definition run_micro_benchmarks ::
  "'w env \<Rightarrow> 'w handle \<Rightarrow> string \<Rightarrow> item \<Rightarrow> (result_record, 'w) action" where
  "run_micro_benchmarks = run_micro_benchmarks_with calculate_stats"

text \<open>One pass of the stability loop for one handle: a full cycle inside
  \<^verbatim>\<open>try ... except Exception\<close>, which logs and goes on.\<close>

definition stability_cycle :: "'w env \<Rightarrow> 'w handle \<Rightarrow> (unit, 'w) action" where
  "stability_cycle env alg_obj =
     try_except
       (bind_st (keygen alg_obj) (\<lambda>(pk, sk).
          if h_class alg_obj = KEM then
            bind_st (encaps alg_obj pk) (\<lambda>(ct, ss).
            bind_st (decaps alg_obj ct sk) (\<lambda>_. return_st ()))
          else
            bind_st (read_world (urandom env 32)) (\<lambda>msg.
            bind_st (sign alg_obj msg sk) (\<lambda>sg.
            bind_st (verify alg_obj pk msg sg) (\<lambda>_. return_st ())))))
       is_Exception
       (\<lambda>e. logger (Error_in_stability_test (h_name alg_obj) e))"

text \<open>The body of the \<^verbatim>\<open>while\<close> loop: every handle once, then the progress message
  each hundredth pass (its f-string reads the clock).\<close>

definition stability_pass ::
  "'w env \<Rightarrow> 'w handle list \<Rightarrow> real \<Rightarrow> real \<Rightarrow> int \<Rightarrow> (int, 'w) action" where
  "stability_pass env algs start duration iteration =
     bind_st (for_each algs (\<lambda>alg_obj _. stability_cycle env alg_obj) ()) (\<lambda>_.
     if (iteration + 1) mod 100 = 0 then
       bind_st (read_world (time_time env)) (\<lambda>now.
       bind_st (logger (Stability_test_progress \<lfloor>now - start\<rfloor> duration)) (\<lambda>_.
       return_st (iteration + 1)))
     else return_st (iteration + 1))"

text \<open>\<^verbatim>\<open>while time.time() < end_time\<close>: bounded by the wall clock only, so the loop
  need not end; not returning is \<open>None\<close>.\<close>

partial_function (option) stability_while ::
  "'w env \<Rightarrow> 'w handle list \<Rightarrow> real \<Rightarrow> real \<Rightarrow> real \<Rightarrow> int \<Rightarrow> 'w state
     \<Rightarrow> ((exn + unit) \<times> 'w state) option" where
  "stability_while env algs start finish duration iteration s =
     (case read_world (time_time env) s of
        (Inl e, s1) \<Rightarrow> Some (Inl e, s1)
      | (Inr now, s1) \<Rightarrow>
          if now < finish then
            (case stability_pass env algs start duration iteration s1 of
               (Inl e, s2) \<Rightarrow> Some (Inl e, s2)
             | (Inr iteration', s2) \<Rightarrow>
                 stability_while env algs start finish duration iteration' s2)
          else Some (Inr (), s1))"

definition run_long_stability_test ::
  "'w env \<Rightarrow> 'w handle list \<Rightarrow> real \<Rightarrow> 'w state \<Rightarrow> ((exn + unit) \<times> 'w state) option" where
  "run_long_stability_test env algs duration s =
     (case bind_st (logger (Starting_stability_test duration))
             (\<lambda>_. read_world (time_time env)) s of
        (Inl e, s1) \<Rightarrow> Some (Inl e, s1)
      | (Inr start, s1) \<Rightarrow>
          (case stability_while env algs start (start + duration) duration 0 s1 of
             None \<Rightarrow> None
           | Some (Inl e, s2) \<Rightarrow> Some (Inl e, s2)
           | Some (Inr _, s2) \<Rightarrow> Some (logger Stability_test_completed s2)))"

text \<open>Lines 191 to 194 (and 199 to 202): load the algorithm, warm it up, benchmark it and
  store its record under its name.\<close>

definition benchmark_algorithm :: "'w env \<Rightarrow> runner \<Rightarrow> string \<Rightarrow> item \<Rightarrow> (unit, 'w) action" where
  "benchmark_algorithm env r alg_type it =
     bind_st (get_algorithm env alg_type (item_name it) (item_implementation it)) (\<lambda>alg.
     bind_st (run_warmup alg (warmup_iterations (r_config r))) (\<lambda>_.
     bind_st (run_micro_benchmarks env alg alg_type it) (\<lambda>res.
     (\<lambda>s. (Inr (), s\<lparr>results := (results s)
              \<lparr>micro_benchmarks :=
                 AList.update (item_name it) res (micro_benchmarks (results s))\<rparr>\<rparr>)))))"

text \<open>\<^verbatim>\<open>if alg_type in self.config['algorithms']: for item in ...\<close>\<close>

definition benchmark_all :: "'w env \<Rightarrow> runner \<Rightarrow> string \<Rightarrow> item list option \<Rightarrow> (unit, 'w) action" where
  "benchmark_all env r alg_type items =
     (case items of
        None \<Rightarrow> return_st ()
      | Some its \<Rightarrow> for_each its (\<lambda>it _. benchmark_algorithm env r alg_type it) ())"

definition collect_algs ::
  "'w env \<Rightarrow> string \<Rightarrow> item list option \<Rightarrow> 'w handle list \<Rightarrow> ('w handle list, 'w) action" where
  "collect_algs env alg_type items all_algs =
     (case items of
        None \<Rightarrow> return_st all_algs
      | Some its \<Rightarrow>
          for_each its
            (\<lambda>it acc. bind_st (get_algorithm env alg_type (item_name it) (item_implementation it))
                         (\<lambda>alg. return_st (acc @ [alg])))
            all_algs)"

text \<open>The statements of \<^verbatim>\<open>run\<close> before the \<^verbatim>\<open>try\<close>: pre-flight check, monitor start
  and the initial \<^verbatim>\<open>full_results\<close>.\<close>

definition run_setup :: "'w env \<Rightarrow> runner \<Rightarrow> (unit, 'w) action" where
  "run_setup env r =
     bind_st (read_world (psutil_cpu_percent env)) (\<lambda>initial_cpu.
     bind_st (if initial_cpu > 20 then logger (High_cpu_usage initial_cpu)
              else logger (Cpu_usage_normal initial_cpu)) (\<lambda>_.
     bind_st monitor_start (\<lambda>_.
     bind_st (read_world (datetime_now env)) (\<lambda>now.
     (\<lambda>s. (Inr (), s\<lparr>results :=
              \<lparr>start_time = now, end_time = None,
               meta_platform = platform_platform env,
               meta_processor = platform_processor env,
               meta_config = r_config r, micro_benchmarks = []\<rparr>\<rparr>))))))"

text \<open>The micro-benchmark part of the \<^verbatim>\<open>try\<close> block (steps 1 and 2 and the handles for
  step 3), and the whole block.\<close>

definition benchmark_phases :: "'w env \<Rightarrow> runner \<Rightarrow> ('w handle list, 'w) action" where
  "benchmark_phases env r =
     bind_st (benchmark_all env r ''kem'' (algorithms_kem (r_config r))) (\<lambda>_.
     bind_st (benchmark_all env r ''sign'' (algorithms_sign (r_config r))) (\<lambda>_.
     bind_st (collect_algs env ''kem'' (algorithms_kem (r_config r)) []) (\<lambda>all_algs.
     collect_algs env ''sign'' (algorithms_sign (r_config r)) all_algs)))"

definition try_block :: "'w env \<Rightarrow> runner \<Rightarrow> 'w state \<Rightarrow> ((exn + unit) \<times> 'w state) option" where
  "try_block env r s =
     (case benchmark_phases env r s of
        (Inl e, s1) \<Rightarrow> Some (Inl e, s1)
      | (Inr all_algs, s1) \<Rightarrow>
          run_long_stability_test env all_algs (long_run_duration_seconds (r_config r)) s1)"

text \<open>The \<^verbatim>\<open>finally\<close> block: stop the monitor, stamp the end time, write the result
  document.\<close>

definition finalize :: "'w env \<Rightarrow> runner \<Rightarrow> (unit, 'w) action" where
  "finalize env r =
     bind_st (monitor_stop env) (\<lambda>_.
     bind_st (read_world (datetime_now env)) (\<lambda>now.
     bind_st (\<lambda>s. (Inr (), s\<lparr>results := (results s)\<lparr>end_time := Some now\<rparr>\<rparr>)) (\<lambda>_.
     bind_st (read_world (time_time env)) (\<lambda>t.
     (let res_file = r_output_dir r @ ''/benchmark_results_'' @ string_of_nat (nat \<lfloor>t\<rfloor>)
                       @ ''.json''
      in bind_st (\<lambda>s. write_file res_file (Results_json (results s)) s) (\<lambda>_.
         logger (Results_saved res_file)))))))"

text \<open>
  \<^verbatim>\<open>run\<close>: \<^verbatim>\<open>except KeyboardInterrupt\<close> and \<^verbatim>\<open>except Exception\<close> log and go on to
  the \<^verbatim>\<open>finally\<close> block; any other exception runs the \<^verbatim>\<open>finally\<close> block and is
  raised again.
\<close>

definition run :: "'w env \<Rightarrow> runner \<Rightarrow> 'w state \<Rightarrow> ((exn + unit) \<times> 'w state) option" where
  "run env r s =
     (case run_setup env r s of
        (Inl e, s0) \<Rightarrow> Some (Inl e, s0)
      | (Inr _, s0) \<Rightarrow>
          (case try_block env r s0 of
             None \<Rightarrow> None
           | Some (Inr _, s1) \<Rightarrow> Some (finalize env r s1)
           | Some (Inl e, s1) \<Rightarrow>
               if e = KeyboardInterrupt then
                 Some (bind_st (logger Benchmark_interrupted) (\<lambda>_. finalize env r) s1)
               else if is_Exception e then
                 Some (bind_st (logger (Benchmark_failed e)) (\<lambda>_. finalize env r) s1)
               else
                 Some (bind_st (finalize env r) (\<lambda>_. raise_st e) s1)))"

section \<open>Concrete worlds and inputs\<close>

text \<open>A module with no attribute at all, as Python's \<^verbatim>\<open>json\<close> is for this adapter.\<close>

definition bare_module :: "nat provider" where
  "bare_module = \<lparr>m_generate_keypair = None, m_encrypt = None, m_decrypt = None,
     m_sign = None, m_verify = None, m_open = None\<rparr>"

definition empty_config :: config where
  "empty_config = \<lparr>warmup_iterations = 5, long_run_duration_seconds = 0,
     sampling_interval_seconds = 1, algorithms_kem = None, algorithms_sign = None\<rparr>"

definition initial_state :: "nat state" where
  "initial_state = \<lparr>world = 0, logged = [], files = [],
     the_monitor = monitor_init 1 (Some ''data/system_monitor_0.json''),
     results = \<lparr>start_time = [], end_time = None, meta_platform = [], meta_processor = [],
        meta_config = empty_config, micro_benchmarks = []\<rparr>\<rparr>"

text \<open>A KEM provider that counts its calls in the world and never raises.\<close>

definition counting_kem :: "nat provider" where
  "counting_kem =
     \<lparr>m_generate_keypair = Some (\<lambda>w. (Inr ([1, 2], [3, 4]), Suc w)),
      m_encrypt = Some (\<lambda>pk w. (Inr ([5, 6], [7, 8]), Suc w)),
      m_decrypt = Some (\<lambda>sk ct w. (Inr [7, 8], Suc w)),
      m_sign = None, m_verify = None, m_open = None\<rparr>"

text \<open>A KEM provider whose key generation is interrupted from the keyboard.\<close>

definition interrupted_kem :: "nat provider" where
  "interrupted_kem = counting_kem\<lparr>m_generate_keypair := Some (\<lambda>w. (Inl KeyboardInterrupt, Suc w))\<rparr>"

text \<open>
  A world with a ticking clock in which Python's own \<^verbatim>\<open>json\<close> module can be
  imported, \<^verbatim>\<open>pqcrypto.kem.kyber768\<close> and \<^verbatim>\<open>pqcrypto.kem.ml_kem_512\<close> are
  installed, a further KEM module is interrupted whenever it generates keys, and no other
  module exists.
\<close>

definition stdlib_env :: "nat env" where
  "stdlib_env = \<lparr>perf_counter_ns = (\<lambda>w. (int w, Suc w)),
     time_time = (\<lambda>w. (real w, Suc w)),
     datetime_now = (\<lambda>w. (string_of_nat w, Suc w)),
     urandom = (\<lambda>n w. (replicate n 0, Suc w)),
     import_module = (\<lambda>nm w.
        (if nm = ''json'' then Inr bare_module
         else if nm = ''pqcrypto.kem.kyber768'' then Inr counting_kem
         else if nm = ''pqcrypto.kem.ml_kem_512'' then Inr counting_kem
         else if nm = ''pqcrypto.kem.ml_kem_768'' then Inr interrupted_kem
         else Inl ImportError, Suc w)),
     psutil_cpu_percent = (\<lambda>w. (3, Suc w)),
     sampling_ticks = (\<lambda>w. ([], Suc w)),
     platform_platform = ''Linux'',
     platform_processor = ''arm''\<rparr>"

definition kyber_handle :: "nat handle" where
  "kyber_handle = \<lparr>h_class = KEM, h_name = ''Kyber768'', h_implementation = ''pqcrypto'',
     h_module = Some counting_kem\<rparr>"

definition kyber_item :: item where
  "kyber_item = \<lparr>item_name = ''Kyber768'', item_implementation = ''pqcrypto'',
     payload_sizes = Some [32], message_sizes = None\<rparr>"

definition kyber512_item :: item where
  "kyber512_item = \<lparr>item_name = ''Kyber512'', item_implementation = ''pqcrypto'',
     payload_sizes = Some [32], message_sizes = None\<rparr>"

definition ml_kem_item :: item where
  "ml_kem_item = \<lparr>item_name = ''ML-KEM-768'', item_implementation = ''pqcrypto'',
     payload_sizes = Some [32], message_sizes = None\<rparr>"

definition ml_kem_512_item :: item where
  "ml_kem_512_item = \<lparr>item_name = ''ML-KEM-512'', item_implementation = ''pqcrypto'',
     payload_sizes = Some [32], message_sizes = None\<rparr>"

text \<open>Three configured KEMs, the second of which is not installed.\<close>

definition three_kem_runner :: runner where
  "three_kem_runner =
     \<lparr>r_config = empty_config
        \<lparr>algorithms_kem := Some [kyber_item, kyber512_item, ml_kem_512_item]\<rparr>,
      r_output_dir = ''data''\<rparr>"

text \<open>Two configured KEMs, the first of which is not installed; and one configured KEM
  whose key generation is interrupted.\<close>

definition two_kem_runner :: runner where
  "two_kem_runner =
     \<lparr>r_config = empty_config\<lparr>algorithms_kem := Some [kyber512_item, kyber_item]\<rparr>,
      r_output_dir = ''data''\<rparr>"

definition interrupted_runner :: runner where
  "interrupted_runner =
     \<lparr>r_config = empty_config\<lparr>algorithms_kem := Some [ml_kem_item]\<rparr>,
      r_output_dir = ''data''\<rparr>"

text \<open>A signature provider whose \<^verbatim>\<open>verify\<close> rejects by raising an ordinary
  exception.\<close>

definition rejecting_verify :: "bytes \<Rightarrow> bytes \<Rightarrow> bytes \<Rightarrow> nat \<Rightarrow> (exn + pyval) \<times> nat" where
  "rejecting_verify pk msg sg w = (Inl (OtherException ''invalid signature''), Suc w)"

definition failing_signer :: "nat provider" where
  "failing_signer = bare_module\<lparr>m_verify := Some rejecting_verify\<rparr>"

definition signer_handle :: "nat provider \<Rightarrow> nat handle" where
  "signer_handle p = \<lparr>h_class = Signature, h_name = ''Dilithium2'',
     h_implementation = ''pqcrypto'', h_module = Some p\<rparr>"






section \<open>Predicates the theorems use\<close>


text \<open>A KEM handle whose provider has the three KEM functions and none of them ever
  raises.\<close>

definition reliable_kem :: "'w handle \<Rightarrow> bool" where
  "reliable_kem alg =
     (h_class alg = KEM \<and>
      (case h_module alg of
         None \<Rightarrow> False
       | Some p \<Rightarrow>
           (case m_generate_keypair p of
              None \<Rightarrow> False | Some gen \<Rightarrow> \<forall>w. \<not> isl (fst (gen w)))
         \<and> (case m_encrypt p of
              None \<Rightarrow> False | Some enc \<Rightarrow> \<forall>pk w. \<not> isl (fst (enc pk w)))
         \<and> (case m_decrypt p of
              None \<Rightarrow> False | Some dec \<Rightarrow> \<forall>sk ct w. \<not> isl (fst (dec sk ct w)))))"

text \<open>An action that leaves the \<^verbatim>\<open>full_results\<close> dictionary as it found it.\<close>

definition keeps_results :: "('a, 'w) action \<Rightarrow> bool" where
  "keeps_results m = (\<forall>s. results (snd (m s)) = results s)"

text \<open>The configured algorithms in the order \<^verbatim>\<open>run\<close> benchmarks them, each with the
  type string its loop passes on: the KEMs, then the signature schemes.\<close>

definition configured :: "config \<Rightarrow> (string \<times> item) list" where
  "configured cfg =
     map (Pair ''kem'') (case algorithms_kem cfg of None \<Rightarrow> [] | Some its \<Rightarrow> its)
     @ map (Pair ''sign'') (case algorithms_sign cfg of None \<Rightarrow> [] | Some its \<Rightarrow> its)"

text \<open>Benchmarking a sequence of configured algorithms one after the other, as the two
  loops at the head of the \<^verbatim>\<open>try\<close> block do.\<close>

definition benchmark_sequence ::
  "'w env \<Rightarrow> runner \<Rightarrow> (string \<times> item) list \<Rightarrow> (unit, 'w) action" where
  "benchmark_sequence env r tagged =
     for_each tagged (\<lambda>(alg_type, it) _. benchmark_algorithm env r alg_type it) ()"

section \<open>Properties of the stats aggregator\<close>

lemma sort_eq_Nil_iff: "(sort xs = []) = (xs = [])"
proof -
  have "length (sort xs) = length xs" by simp
  then show ?thesis by (metis length_0_conv)
qed

lemma mean_nonempty: "ls \<noteq> [] \<Longrightarrow> mean ls = Inr (sum_list ls / real (length ls))"
  by (cases ls) (simp_all add: mean_def)

lemma median_nonempty:
  assumes ne: "ls \<noteq> []"
  shows "\<exists>m. median ls = Inr m \<and> Min (set ls) \<le> m \<and> m \<le> Max (set ls)"
proof -
  let ?s = "sort ls" and ?n = "length ls"
  have n: "0 < ?n" using ne by simp
  have bound: "Min (set ls) \<le> ?s ! i \<and> ?s ! i \<le> Max (set ls)" if "i < ?n" for i
  proof -
    from that have "i < length ?s" by simp
    then have "?s ! i \<in> set ?s" by (rule nth_mem)
    then have "?s ! i \<in> set ls" by simp
    then show ?thesis by simp
  qed
  show ?thesis
  proof (cases "?n mod 2 = 1")
    case True
    have "?n div 2 < ?n" using n by simp
    from bound[OF this] True n show ?thesis
      by (simp add: median_def Let_def sort_eq_Nil_iff)
  next
    case False
    have a: "?n div 2 < ?n" using n by simp
    have b: "?n div 2 - 1 < ?n" using a by arith
    have "median ls = Inr ((?s ! (?n div 2 - 1) + ?s ! (?n div 2)) / 2)"
      using False ne by (simp add: median_def Let_def sort_eq_Nil_iff)
    moreover have "Min (set ls) \<le> (?s ! (?n div 2 - 1) + ?s ! (?n div 2)) / 2"
      using bound[OF a] bound[OF b] by argo
    moreover have "(?s ! (?n div 2 - 1) + ?s ! (?n div 2)) / 2 \<le> Max (set ls)"
      using bound[OF a] bound[OF b] by argo
    ultimately show ?thesis by blast
  qed
qed

lemma sum_list_upper:
  "(\<And>x. x \<in> set xs \<Longrightarrow> x \<le> (M::real)) \<Longrightarrow> sum_list xs \<le> real (length xs) * M"
proof (induction xs)
  case Nil
  then show ?case by simp
next
  case (Cons a xs)
  have "a \<le> M" using Cons.prems by simp
  moreover have "sum_list xs \<le> real (length xs) * M" using Cons by simp
  ultimately show ?case by (simp add: algebra_simps)
qed

lemma sum_list_lower:
  "(\<And>x. x \<in> set xs \<Longrightarrow> (m::real) \<le> x) \<Longrightarrow> real (length xs) * m \<le> sum_list xs"
proof (induction xs)
  case Nil
  then show ?case by simp
next
  case (Cons a xs)
  have "m \<le> a" using Cons.prems by simp
  moreover have "real (length xs) * m \<le> sum_list xs" using Cons by simp
  ultimately show ?case by (simp add: algebra_simps)
qed

lemma mean_bounds:
  assumes "ls \<noteq> []"
  shows "Min (set ls) \<le> sum_list ls / real (length ls)"
    and "sum_list ls / real (length ls) \<le> Max (set ls)"
proof -
  have n: "0 < real (length ls)" using assms by simp
  have "real (length ls) * Min (set ls) \<le> sum_list ls" by (rule sum_list_lower) simp
  then show "Min (set ls) \<le> sum_list ls / real (length ls)"
    using n by (simp add: pos_le_divide_eq mult.commute)
  have "sum_list ls \<le> real (length ls) * Max (set ls)" by (rule sum_list_upper) simp
  then show "sum_list ls / real (length ls) \<le> Max (set ls)"
    using n by (simp add: pos_divide_le_eq mult.commute)
qed

lemma stdev_nonneg:
  assumes a: "stdev ls = Inr sd"
  shows "0 \<le> sd"
proof -
  let ?m = "sum_list ls / real (length ls)"
  have "0 \<le> sum_list (map (\<lambda>x. (x - ?m)\<^sup>2) ls)"
    by (rule sum_list_nonneg) auto
  then have "0 \<le> sum_list (map (\<lambda>x. (x - ?m)\<^sup>2) ls) / real (length ls - 1)"
    by simp
  then have "0 \<le> sqrt (sum_list (map (\<lambda>x. (x - ?m)\<^sup>2) ls) / real (length ls - 1))"
    by simp
  with a show ?thesis by (auto simp: stdev_def Let_def split: if_splits)
qed

lemma stdev_defined: "1 < length ls \<Longrightarrow> \<exists>sd. stdev ls = Inr sd"
  by (simp add: stdev_def Let_def)

lemma percentile_99_nonempty: "ls \<noteq> [] \<Longrightarrow> \<exists>p. percentile ls 99 = Inr (Some p)"
  by (simp add: percentile_def Let_def)

text \<open>On a non-empty sample sequence no call of the aggregator raises, and every field is
  the library function's value on the microsecond durations.\<close>

lemma calculate_stats_nonempty:
  assumes ne: "ns \<noteq> []"
  shows "\<exists>s. calculate_stats ns = Inr s
           \<and> avg_us s = sum_list (latencies_us ns) / real (length ns)
           \<and> median (latencies_us ns) = Inr (median_us s)
           \<and> percentile (latencies_us ns) 99 = Inr (p99_us s)
           \<and> min_us s = Min (set (latencies_us ns))
           \<and> max_us s = Max (set (latencies_us ns))
           \<and> (if 1 < length ns then stdev (latencies_us ns) = Inr (std_dev_us s)
               else std_dev_us s = 0)"
proof -
  let ?ls = "latencies_us ns"
  have lne: "?ls \<noteq> []" using ne by (simp add: latencies_us_def)
  have len: "length ?ls = length ns" by (simp add: latencies_us_def)
  obtain m where m: "median ?ls = Inr m" using median_nonempty[OF lne] by blast
  obtain p where p: "percentile ?ls 99 = Inr (Some p)"
    using percentile_99_nonempty[OF lne] by blast
  show ?thesis
  proof (cases "1 < length ns")
    case True
    then obtain sd where sd: "stdev ?ls = Inr sd" using stdev_defined[of ?ls] len by auto
    show ?thesis using True lne len m p sd mean_nonempty[OF lne]
      by (simp add: calculate_stats_def bind_exn_def py_min_def py_max_def Let_def
          latencies_us_def[symmetric])
  next
    case False
    show ?thesis using False lne len m p mean_nonempty[OF lne]
      by (simp add: calculate_stats_def bind_exn_def py_min_def py_max_def Let_def
          latencies_us_def[symmetric])
  qed
qed

lemma calculate_stats_empty: "calculate_stats [] = Inl StatisticsError"
  by (simp add: calculate_stats_def mean_def bind_exn_def)

lemma percentile_one_to_hundred:
  "percentile (latencies_us one_to_hundred_us) 99 = Inr (Some (9901 / 100))"
  by code_simp

lemma one_to_hundred_nonempty: "one_to_hundred_us \<noteq> []"
  by code_simp

text \<open>
  C2. The aggregator fails with the empty-sample error (Python's
  \<^verbatim>\<open>StatisticsError\<close>, raised by the first \<^verbatim>\<open>statistics.mean\<close> call) exactly
  when it is given zero samples, and it returns a summary exactly when the sample sequence
  is non-empty.
\<close>

theorem calculate_stats_fails_iff_empty:
  "(calculate_stats ns = Inl StatisticsError) = (ns = [])
   \<and> (\<exists>s. calculate_stats ns = Inr s) = (ns \<noteq> [])"
proof (cases "ns = []")
  case True
  then show ?thesis by (simp add: calculate_stats_empty)
next
  case False
  from calculate_stats_nonempty[OF False] obtain s where "calculate_stats ns = Inr s"
    by blast
  with False show ?thesis by simp
qed

theorem calculate_stats_fails_iff_empty_witness:
  "calculate_stats [] = Inl StatisticsError \<and> (\<exists>s. calculate_stats [1500, 2500] = Inr s)"
  using calculate_stats_fails_iff_empty[of "[]"]
    calculate_stats_fails_iff_empty[of "[1500, 2500]"]
  by simp

text \<open>
  C3, as stated: the 99th percentile of the samples 1, ..., 100 microseconds is 100. It is
  not: the virtual index is \<open>0.99 * 99 = 98.01\<close>, between the order statistics 99 and
  100.
\<close>

theorem p99_one_to_hundred_counterexample:
  "map_sum id p99_us (calculate_stats one_to_hundred_us) \<noteq> Inr (Some 100)"
  using calculate_stats_nonempty[OF one_to_hundred_nonempty] percentile_one_to_hundred
  by auto

text \<open>
  C3, amended: the 99th percentile of the samples 1, ..., 100 microseconds, interpolated
  linearly at index \<open>0.99 * (n - 1) = 98.01\<close>, is \<open>99 + 0.01 * (100 - 99) = 99.01\<close>.
\<close>

theorem p99_one_to_hundred:
  "map_sum id p99_us (calculate_stats one_to_hundred_us) = Inr (Some (9901 / 100))"
  using calculate_stats_nonempty[OF one_to_hundred_nonempty] percentile_one_to_hundred
  by auto

text \<open>
  C9. For every non-empty sequence of durations the summary exists and satisfies
  min \<open>\<le>\<close> median \<open>\<le>\<close> max, min \<open>\<le>\<close> mean \<open>\<le>\<close> max and stddev \<open>\<ge>\<close> 0; for a
  single sample, stddev is 0 and mean, median, min and max coincide.
\<close>

theorem stat_summary_invariant:
  assumes ne: "ns \<noteq> []"
  shows "\<exists>s. calculate_stats ns = Inr s
           \<and> min_us s \<le> median_us s \<and> median_us s \<le> max_us s
           \<and> min_us s \<le> avg_us s \<and> avg_us s \<le> max_us s
           \<and> 0 \<le> std_dev_us s
           \<and> (length ns = 1 \<longrightarrow>
                std_dev_us s = 0 \<and> avg_us s = median_us s
                \<and> median_us s = min_us s \<and> min_us s = max_us s)"
proof -
  let ?ls = "latencies_us ns"
  have lne: "?ls \<noteq> []" using ne by (simp add: latencies_us_def)
  have len: "length ?ls = length ns" by (simp add: latencies_us_def)
  from calculate_stats_nonempty[OF ne] obtain s where
    s: "calculate_stats ns = Inr s"
    and avg: "avg_us s = sum_list ?ls / real (length ns)"
    and med: "median ?ls = Inr (median_us s)"
    and mn: "min_us s = Min (set ?ls)"
    and mx: "max_us s = Max (set ?ls)"
    and sd: "if 1 < length ns then stdev ?ls = Inr (std_dev_us s) else std_dev_us s = 0"
    by blast
  from median_nonempty[OF lne] med
  have m1: "min_us s \<le> median_us s" and m2: "median_us s \<le> max_us s"
    by (simp_all add: mn mx)
  from mean_bounds[OF lne]
  have a1: "min_us s \<le> avg_us s" and a2: "avg_us s \<le> max_us s"
    by (simp_all add: avg mn mx len)
  have s0: "0 \<le> std_dev_us s"
  proof (cases "1 < length ns")
    case True
    with sd have "stdev ?ls = Inr (std_dev_us s)" by simp
    then show ?thesis by (rule stdev_nonneg)
  next
    case False
    with sd show ?thesis by simp
  qed
  have single: "std_dev_us s = 0 \<and> avg_us s = median_us s
                \<and> median_us s = min_us s \<and> min_us s = max_us s"
    if one: "length ns = 1"
  proof -
    from one obtain n where n: "ns = [n]" by (cases ns) auto
    have ls: "?ls = [real_of_int n / 1000]" by (simp add: n latencies_us_def)
    have "median ?ls = Inr (real_of_int n / 1000)" by (simp add: ls median_def)
    with med have "median_us s = real_of_int n / 1000" by simp
    moreover have "avg_us s = real_of_int n / 1000" using ls one by (simp add: avg)
    moreover have "min_us s = real_of_int n / 1000" by (simp add: mn ls)
    moreover have "max_us s = real_of_int n / 1000" by (simp add: mx ls)
    moreover have "std_dev_us s = 0" using sd one by simp
    ultimately show ?thesis by simp
  qed
  from s m1 m2 a1 a2 s0 single show ?thesis by blast
qed

theorem stat_summary_invariant_witness:
  "[7000::int] \<noteq> [] \<and> length [7000::int] = 1
   \<and> (\<exists>s. calculate_stats [7000] = Inr s
           \<and> min_us s \<le> median_us s \<and> median_us s \<le> max_us s
           \<and> min_us s \<le> avg_us s \<and> avg_us s \<le> max_us s
           \<and> 0 \<le> std_dev_us s
           \<and> std_dev_us s = 0 \<and> avg_us s = median_us s
           \<and> median_us s = min_us s \<and> min_us s = max_us s)"
  using stat_summary_invariant[of "[7000]"] by simp


section \<open>Properties of the algorithm adapter\<close>

lemmas action_defs = bind_st_def return_st_def raise_st_def lift_exn_def call_def
  read_world_def logger_def try_except_def

lemma json_is_unbound: "map_of PQCRYPTO_MAPPING ''json'' = None"
  by (simp add: PQCRYPTO_MAPPING_def)

lemma json_handle_constructed:
  "map_sum id h_name (fst (get_algorithm stdlib_env ''kem'' ''json'' ''pqcrypto'' initial_state))
     = Inr ''json''"
  by (simp add: get_algorithm_def lower_def CryptoAlgorithm_init_def load_module_def
      mapping_get_def PQCRYPTO_MAPPING_def action_defs stdlib_env_def initial_state_def Let_def)

lemma unbound_and_missing_fail_alike:
  "map_of PQCRYPTO_MAPPING ''Kyber1024'' = None
   \<and> fst (get_algorithm stdlib_env ''kem'' ''Kyber1024'' ''pqcrypto'' initial_state)
       = Inl ImportError
   \<and> map_of PQCRYPTO_MAPPING ''Kyber512'' = Some ''pqcrypto.kem.kyber512''
   \<and> fst (get_algorithm stdlib_env ''kem'' ''Kyber512'' ''pqcrypto'' initial_state)
       = Inl ImportError"
  by (simp add: get_algorithm_def lower_def CryptoAlgorithm_init_def load_module_def
      mapping_get_def PQCRYPTO_MAPPING_def action_defs stdlib_env_def initial_state_def
      is_ImportError_def Let_def)

text \<open>
  C4, as stated: a name without a registered binding fails with an error of its own. It
  does not: \<^verbatim>\<open>PQCRYPTO_MAPPING.get(name, name)\<close> falls back to the name itself as the
  module to import. The unbound name \<^verbatim>\<open>json\<close> constructs a handle, and the unbound
  \<^verbatim>\<open>Kyber1024\<close> fails with the same \<^verbatim>\<open>ImportError\<close> as the bound but missing
  \<^verbatim>\<open>Kyber512\<close>.
\<close>

theorem unknown_algorithm_counterexample:
  "map_of PQCRYPTO_MAPPING ''json'' = None
   \<and> map_sum id h_name
        (fst (get_algorithm stdlib_env ''kem'' ''json'' ''pqcrypto'' initial_state))
       = Inr ''json''
   \<and> map_of PQCRYPTO_MAPPING ''Kyber1024'' = None
   \<and> fst (get_algorithm stdlib_env ''kem'' ''Kyber1024'' ''pqcrypto'' initial_state)
       = Inl ImportError
   \<and> fst (get_algorithm stdlib_env ''kem'' ''Kyber512'' ''pqcrypto'' initial_state)
       = Inl ImportError"
  using json_is_unbound json_handle_constructed unbound_and_missing_fail_alike by simp

text \<open>
  C4, amended: with the implementation \<^verbatim>\<open>pqcrypto\<close>, constructing a handle imports
  the module bound to the name, or the module called by the name itself when the name has no
  binding; the construction fails exactly when that import fails, and then with the
  import's own exception, and otherwise yields the handle of the imported module.
\<close>

theorem construction_follows_import:
  "fst (CryptoAlgorithm_init env cls nm ''pqcrypto'' s) =
     map_sum id
       (\<lambda>m. \<lparr>h_class = cls, h_name = nm, h_implementation = ''pqcrypto'', h_module = Some m\<rparr>)
       (fst (import_module env
               (case map_of PQCRYPTO_MAPPING nm of Some m \<Rightarrow> m | None \<Rightarrow> nm) (world s)))"
  by (auto simp add: CryptoAlgorithm_init_def load_module_def mapping_get_def
      action_defs Let_def split: prod.splits sum.splits option.splits)

text \<open>
  C5. For every triple of byte strings, malformed or not, \<^verbatim>\<open>verify\<close> propagates no
  failure of the verification: no exception that derives from \<^verbatim>\<open>Exception\<close> leaves it,
  and when the provider's \<^verbatim>\<open>verify\<close> (or, without one, its \<^verbatim>\<open>open\<close>) raises such an
  exception, the result is \<^verbatim>\<open>False\<close>.
\<close>

theorem verify_maps_failure_to_false:
  "(case fst (Signature_verify h (PyBytes pk) (PyBytes msg) (PyBytes sg) s) of
      Inl e' \<Rightarrow> \<not> is_Exception e' | Inr v \<Rightarrow> True)
   \<and> (h_module h = Some p
        \<and> (m_verify p = Some f \<and> fst (f pk msg sg (world s)) = Inl e
            \<or> m_verify p = None \<and> m_open p = Some g \<and> fst (g pk sg (world s)) = Inl e)
        \<and> is_Exception e
      \<longrightarrow> fst (Signature_verify h (PyBytes pk) (PyBytes msg) (PyBytes sg) s)
            = Inr (PyBool False))"
  by (auto simp add: Signature_verify_def action_defs hasattr_def getattr_def
      split: prod.splits sum.splits option.splits if_splits)

theorem verify_maps_failure_to_false_witness:
  "h_module (signer_handle failing_signer) = Some failing_signer
   \<and> m_verify failing_signer = Some rejecting_verify
   \<and> fst (rejecting_verify [0] [1] [2] (world initial_state))
       = Inl (OtherException ''invalid signature'')
   \<and> is_Exception (OtherException ''invalid signature'')
   \<and> fst (Signature_verify (signer_handle failing_signer)
             (PyBytes [0]) (PyBytes [1]) (PyBytes [2]) initial_state) = Inr (PyBool False)"
  using verify_maps_failure_to_false[where h = "signer_handle failing_signer"
      and p = failing_signer and f = rejecting_verify and pk = "[0]" and msg = "[1]"
      and sg = "[2]" and s = initial_state and e = "OtherException ''invalid signature''"
      and g = "\<lambda>pk sg w. (Inr PyNone, w)"]
  by (simp add: signer_handle_def failing_signer_def bare_module_def rejecting_verify_def)

text \<open>
  C10. When the module has neither a \<^verbatim>\<open>verify\<close> nor an \<^verbatim>\<open>open\<close> attribute,
  \<^verbatim>\<open>verify\<close> returns \<^verbatim>\<open>False\<close> for every triple of byte strings and raises
  nothing.
\<close>

theorem verify_without_attributes:
  assumes "\<not> hasattr (h_module h) m_verify" and "\<not> hasattr (h_module h) m_open"
  shows "fst (Signature_verify h (PyBytes pk) (PyBytes msg) (PyBytes sg) s) = Inr (PyBool False)"
  using assms by (simp add: Signature_verify_def action_defs)

theorem verify_without_attributes_witness:
  "\<not> hasattr (h_module (signer_handle bare_module)) m_verify
   \<and> \<not> hasattr (h_module (signer_handle bare_module)) m_open
   \<and> fst (Signature_verify (signer_handle bare_module)
             (PyBytes [9]) (PyBytes [8, 7]) (PyBytes []) initial_state) = Inr (PyBool False)"
proof -
  have v: "\<not> hasattr (h_module (signer_handle bare_module)) m_verify"
    by (simp add: hasattr_def signer_handle_def bare_module_def)
  have op: "\<not> hasattr (h_module (signer_handle bare_module)) m_open"
    by (simp add: hasattr_def signer_handle_def bare_module_def)
  show ?thesis using v op verify_without_attributes[OF v op] by simp
qed

section \<open>Properties of the resource monitor\<close>






section \<open>Properties of the micro-benchmark phase\<close>

lemma for_range_invariant:
  assumes step: "\<And>acc s k. I k acc \<Longrightarrow> \<exists>acc' s'. body acc s = (Inr acc', s') \<and> I (Suc k) acc'"
    and init: "I k acc"
  shows "\<exists>acc' s'. for_range n body acc s = (Inr acc', s') \<and> I (k + n) acc'"
  using init
proof (induction n arbitrary: acc s k)
  case 0
  then show ?case by simp
next
  case (Suc n)
  from step[OF Suc.prems, of s] obtain acc1 s1 where
    b: "body acc s = (Inr acc1, s1)" and i: "I (Suc k) acc1" by blast
  from Suc.IH[OF i, of s1] b show ?case by simp
qed

lemma not_isl_fst: "\<not> isl (fst p) \<Longrightarrow> \<exists>x w. p = (Inr x, w)"
  by (cases p; cases "fst p") auto

lemma keygen_reliable:
  assumes "reliable_kem alg"
  shows "\<exists>pk sk s'. keygen alg s = (Inr (pk, sk), s')"
proof -
  from assms obtain p gen where p: "h_module alg = Some p" "h_class alg = KEM"
    and g: "m_generate_keypair p = Some gen" and ok: "\<And>w. \<not> isl (fst (gen w))"
    by (auto simp: reliable_kem_def split: option.splits)
  from not_isl_fst[OF ok[of "world s"]] obtain x w where "gen (world s) = (Inr x, w)"
    by blast
  then show ?thesis using p g
    by (cases x) (simp add: keygen_def KEM_keygen_def getattr_def action_defs)
qed

lemma encaps_reliable:
  assumes "reliable_kem alg"
  shows "\<exists>ct ss s'. encaps alg pk s = (Inr (ct, ss), s')"
proof -
  from assms obtain p enc where p: "h_module alg = Some p" "h_class alg = KEM"
    and g: "m_encrypt p = Some enc" and ok: "\<And>pk w. \<not> isl (fst (enc pk w))"
    by (auto simp: reliable_kem_def split: option.splits)
  from not_isl_fst[OF ok[of pk "world s"]] obtain x w where "enc pk (world s) = (Inr x, w)"
    by blast
  then show ?thesis using p g
    by (cases x) (simp add: encaps_def KEM_encaps_def getattr_def action_defs)
qed

lemma decaps_reliable:
  assumes "reliable_kem alg"
  shows "\<exists>ss s'. decaps alg ct sk s = (Inr ss, s')"
proof -
  from assms obtain p dec where p: "h_module alg = Some p" "h_class alg = KEM"
    and g: "m_decrypt p = Some dec" and ok: "\<And>sk ct w. \<not> isl (fst (dec sk ct w))"
    by (auto simp: reliable_kem_def split: option.splits)
  from not_isl_fst[OF ok[of sk ct "world s"]] obtain x w where
    "dec sk ct (world s) = (Inr x, w)" by blast
  then show ?thesis using p g
    by (simp add: decaps_def KEM_decaps_def getattr_def action_defs)
qed

lemma keygen_trials_reliable:
  assumes r: "reliable_kem alg"
  shows "\<exists>kl s'. keygen_trials env alg s = (Inr kl, s') \<and> length kl = iterations"
proof -
  let ?body = "\<lambda>latencies. bind_st (measure_time env (keygen alg))
                 (\<lambda>t. return_st (latencies @ [t]))"
  have step: "\<exists>acc' s'. ?body acc s = (Inr acc', s') \<and> length acc' = Suc k"
    if "length acc = k" for acc :: "int list" and s :: "'a state" and k
  proof -
    obtain t0 w0 where t0: "perf_counter_ns env (world s) = (t0, w0)"
      by (cases "perf_counter_ns env (world s)")
    from keygen_reliable[OF r, of "s\<lparr>world := w0\<rparr>"] obtain pk sk s1 where
      k: "keygen alg (s\<lparr>world := w0\<rparr>) = (Inr (pk, sk), s1)" by blast
    obtain t1 w1 where t1: "perf_counter_ns env (world s1) = (t1, w1)"
      by (cases "perf_counter_ns env (world s1)")
    show ?thesis using t0 k t1 that by (simp add: measure_time_def action_defs)
  qed
  from for_range_invariant[where I = "\<lambda>k acc. length acc = k" and body = ?body and k = 0
      and acc = "[]" and n = iterations and s = s, OF step]
  show ?thesis by (simp add: keygen_trials_def)
qed

lemma kem_trials_reliable:
  assumes r: "reliable_kem alg"
  shows "\<exists>el dl s'. kem_trials env alg pk sk s = (Inr (el, dl), s')
          \<and> length el = iterations \<and> length dl = iterations"
proof -
  let ?body = "(\<lambda>(enc_latencies, dec_latencies).
          bind_st (read_world (perf_counter_ns env)) (\<lambda>t0.
          bind_st (encaps alg pk) (\<lambda>(ct, ss).
          bind_st (read_world (perf_counter_ns env)) (\<lambda>t1.
          bind_st (read_world (perf_counter_ns env)) (\<lambda>t2.
          bind_st (decaps alg ct sk) (\<lambda>_.
          bind_st (read_world (perf_counter_ns env)) (\<lambda>t3.
          return_st (enc_latencies @ [t1 - t0], dec_latencies @ [t3 - t2]))))))))"
  let ?I = "\<lambda>k (acc :: int list \<times> int list). length (fst acc) = k \<and> length (snd acc) = k"
  have step: "\<exists>acc' s'. ?body acc s = (Inr acc', s') \<and> ?I (Suc k) acc'"
    if "?I k acc" for acc and s :: "'a state" and k
  proof -
    obtain e d where acc: "acc = (e, d)" by (cases acc)
    obtain t0 w0 where t0: "perf_counter_ns env (world s) = (t0, w0)"
      by (cases "perf_counter_ns env (world s)")
    from encaps_reliable[OF r, of pk "s\<lparr>world := w0\<rparr>"] obtain ct ss s1 where
      k: "encaps alg pk (s\<lparr>world := w0\<rparr>) = (Inr (ct, ss), s1)" by blast
    obtain t1 w1 where t1: "perf_counter_ns env (world s1) = (t1, w1)"
      by (cases "perf_counter_ns env (world s1)")
    obtain t2 w2 where t2: "perf_counter_ns env w1 = (t2, w2)"
      by (cases "perf_counter_ns env w1")
    from decaps_reliable[OF r, of ct sk "s1\<lparr>world := w2\<rparr>"] obtain ss' s2 where
      d: "decaps alg ct sk (s1\<lparr>world := w2\<rparr>) = (Inr ss', s2)" by blast
    obtain t3 w3 where t3: "perf_counter_ns env (world s2) = (t3, w3)"
      by (cases "perf_counter_ns env (world s2)")
    show ?thesis using acc t0 k t1 t2 d t3 that by (simp add: action_defs)
  qed
  from for_range_invariant[where I = ?I and body = ?body and k = 0 and acc = "([], [])"
      and n = iterations and s = s, OF step]
  show ?thesis by (auto simp add: kem_trials_def)
qed

lemma run_micro_benchmarks_with_kem_32:
  assumes "keygen_trials env alg (snd (logger (Running_micro_benchmarks (h_name alg)) s))
             = (Inr kl, s1)"
    and "keygen alg s1 = (Inr (pk, sk), s2)"
    and "kem_trials env alg pk sk s2 = (Inr (el, dl), s3)"
    and "calc kl = Inr rk" "calc el = Inr re" "calc dl = Inr rd"
    and "payload_sizes params = Some [32]"
  shows "run_micro_benchmarks_with calc env alg ''kem'' params s =
           (Inr [(''keygen'', rk), (''encaps_size_32'', re), (''decaps_size_32'', rd)], s3)"
  using assms
  by (simp add: run_micro_benchmarks_with_def bind_st_def return_st_def lift_exn_def logger_def
      string_of_nat.simps)

lemma calculate_stats_defined: "ns \<noteq> [] \<Longrightarrow> \<exists>st. calculate_stats ns = Inr st"
  using calculate_stats_nonempty by blast

lemma kem_32_sample_counts:
  assumes r: "reliable_kem alg" and p: "payload_sizes params = Some [32]"
  shows "\<exists>kl el dl ks es ds.
     length kl = 1000 \<and> length el = 1000 \<and> length dl = 1000
     \<and> calculate_stats kl = Inr ks \<and> calculate_stats el = Inr es \<and> calculate_stats dl = Inr ds
     \<and> fst (run_micro_benchmarks_with Inr env alg ''kem'' params s)
         = Inr [(''keygen'', kl), (''encaps_size_32'', el), (''decaps_size_32'', dl)]
     \<and> fst (run_micro_benchmarks env alg ''kem'' params s)
         = Inr [(''keygen'', ks), (''encaps_size_32'', es), (''decaps_size_32'', ds)]"
proof -
  let ?s0 = "snd (logger (Running_micro_benchmarks (h_name alg)) s)"
  from keygen_trials_reliable[OF r, of env ?s0] obtain kl s1 where
    kt: "keygen_trials env alg ?s0 = (Inr kl, s1)" and kl: "length kl = iterations" by blast
  from keygen_reliable[OF r, of s1] obtain pk sk s2 where
    kg: "keygen alg s1 = (Inr (pk, sk), s2)" by blast
  from kem_trials_reliable[OF r, of env pk sk s2] obtain el dl s3 where
    et: "kem_trials env alg pk sk s2 = (Inr (el, dl), s3)"
    and el: "length el = iterations" and dl: "length dl = iterations" by blast
  have pos: "0 < iterations" by (simp add: iterations_def)
  have ne: "kl \<noteq> []" "el \<noteq> []" "dl \<noteq> []"
    using kl el dl pos by fastforce+
  from calculate_stats_defined[OF ne(1)] obtain ks where ks: "calculate_stats kl = Inr ks" ..
  from calculate_stats_defined[OF ne(2)] obtain es where es: "calculate_stats el = Inr es" ..
  from calculate_stats_defined[OF ne(3)] obtain ds where ds: "calculate_stats dl = Inr ds" ..
  have a: "run_micro_benchmarks_with Inr env alg ''kem'' params s
             = (Inr [(''keygen'', kl), (''encaps_size_32'', el), (''decaps_size_32'', dl)], s3)"
    by (rule run_micro_benchmarks_with_kem_32[OF kt kg et _ _ _ p]) simp_all
  have b: "run_micro_benchmarks env alg ''kem'' params s
             = (Inr [(''keygen'', ks), (''encaps_size_32'', es), (''decaps_size_32'', ds)], s3)"
    unfolding run_micro_benchmarks_def
    by (rule run_micro_benchmarks_with_kem_32[OF kt kg et ks es ds p])
  have n: "iterations = 1000" by (simp only: iterations_def)
  have fa: "fst (run_micro_benchmarks_with Inr env alg ''kem'' params s)
              = Inr [(''keygen'', kl), (''encaps_size_32'', el), (''decaps_size_32'', dl)]"
    by (simp only: a fst_conv)
  have fb: "fst (run_micro_benchmarks env alg ''kem'' params s)
              = Inr [(''keygen'', ks), (''encaps_size_32'', es), (''decaps_size_32'', ds)]"
    by (simp only: b fst_conv)
  have k1: "length kl = 1000" using kl n by (rule trans)
  have e1: "length el = 1000" using el n by (rule trans)
  have d1: "length dl = 1000" using dl n by (rule trans)
  show ?thesis
    apply (rule exI[of _ kl], rule exI[of _ el], rule exI[of _ dl])
    apply (rule exI[of _ ks], rule exI[of _ es], rule exI[of _ ds])
    apply (intro conjI k1 e1 d1 ks es ds fa fb)
    done
qed

lemma reliable_kyber_handle: "reliable_kem kyber_handle"
  by (simp add: reliable_kem_def kyber_handle_def counting_kem_def)

lemma kyber_item_sizes: "payload_sizes kyber_item = Some [32]"
  by (simp add: kyber_item_def)

text \<open>
  C7, as stated: with a configured trial count of 10, each entry is aggregated over exactly
  10 samples. The phase has no configured trial count: its local \<^verbatim>\<open>iterations\<close> is the
  constant 1000, and for a KEM with \<^verbatim>\<open>payload_sizes: [32]\<close> each of the three entries is
  aggregated over 1000 samples.
\<close>

theorem ten_samples_counterexample:
  "map_sum id (map (\<lambda>(k, ls). (k, length ls)))
     (fst (run_micro_benchmarks_with Inr stdlib_env kyber_handle ''kem'' kyber_item
             initial_state))
   = Inr [(''keygen'', 1000), (''encaps_size_32'', 1000), (''decaps_size_32'', 1000)]"
proof -
  from kem_32_sample_counts[OF reliable_kyber_handle kyber_item_sizes,
      of stdlib_env initial_state]
  obtain kl el dl where l: "length kl = 1000" "length el = 1000" "length dl = 1000"
    and f: "fst (run_micro_benchmarks_with Inr stdlib_env kyber_handle ''kem'' kyber_item
                   initial_state)
         = Inr [(''keygen'', kl), (''encaps_size_32'', el), (''decaps_size_32'', dl)]"
    by blast
  show ?thesis by (simp only: f l map_sum.simps list.map prod.case id_apply)
qed

text \<open>
  C7, amended: running the micro-benchmark phase for a single KEM configured with
  \<^verbatim>\<open>payload_sizes: [32]\<close>, whose provider calls do not raise, produces a record whose
  keys are exactly \<^verbatim>\<open>keygen\<close>, \<^verbatim>\<open>encaps_size_32\<close> and \<^verbatim>\<open>decaps_size_32\<close>, each
  entry the summary of exactly 1000 timing samples, the fixed trial count of the phase.
\<close>

theorem micro_benchmarks_kem_32:
  assumes "reliable_kem alg" and "payload_sizes params = Some [32]"
  shows "\<exists>kl el dl ks es ds.
     length kl = 1000 \<and> length el = 1000 \<and> length dl = 1000
     \<and> calculate_stats kl = Inr ks \<and> calculate_stats el = Inr es \<and> calculate_stats dl = Inr ds
     \<and> fst (run_micro_benchmarks_with Inr env alg ''kem'' params s)
         = Inr [(''keygen'', kl), (''encaps_size_32'', el), (''decaps_size_32'', dl)]
     \<and> fst (run_micro_benchmarks env alg ''kem'' params s)
         = Inr [(''keygen'', ks), (''encaps_size_32'', es), (''decaps_size_32'', ds)]"
  using assms by (rule kem_32_sample_counts)

theorem micro_benchmarks_kem_32_witness:
  "reliable_kem kyber_handle \<and> payload_sizes kyber_item = Some [32]
   \<and> (\<exists>kl el dl ks es ds.
     length kl = 1000 \<and> length el = 1000 \<and> length dl = 1000
     \<and> calculate_stats kl = Inr ks \<and> calculate_stats el = Inr es \<and> calculate_stats dl = Inr ds
     \<and> fst (run_micro_benchmarks_with Inr stdlib_env kyber_handle ''kem'' kyber_item
               initial_state)
         = Inr [(''keygen'', kl), (''encaps_size_32'', el), (''decaps_size_32'', dl)]
     \<and> fst (run_micro_benchmarks stdlib_env kyber_handle ''kem'' kyber_item initial_state)
         = Inr [(''keygen'', ks), (''encaps_size_32'', es), (''decaps_size_32'', ds)])"
proof -
  have r: "reliable_kem kyber_handle"
    by (simp add: reliable_kem_def kyber_handle_def counting_kem_def)
  have p: "payload_sizes kyber_item = Some [32]"
    by (simp add: kyber_item_def)
  show ?thesis
    by (rule conjI[OF r conjI[OF p micro_benchmarks_kem_32[OF r p]]])
qed


section \<open>Properties of the run\<close>

lemma keeps_resultsD: "keeps_results m \<Longrightarrow> m s = (x, s') \<Longrightarrow> results s' = results s"
  by (auto simp: keeps_results_def dest: spec[of _ s])

lemma keeps_return: "keeps_results (return_st x)"
  and keeps_raise: "keeps_results (raise_st e)"
  and keeps_lift: "keeps_results (lift_exn v)"
  and keeps_logger: "keeps_results (logger entry)"
  by (simp_all add: keeps_results_def action_defs)

lemma keeps_call: "keeps_results (call f)"
  and keeps_read_world: "keeps_results (read_world g)"
  by (simp_all add: keeps_results_def action_defs split: prod.splits)

lemma keeps_bind:
  assumes "keeps_results m" and "\<And>x. keeps_results (f x)"
  shows "keeps_results (bind_st m f)"
  unfolding keeps_results_def
proof
  fix s
  obtain x s1 where m: "m s = (x, s1)" by (cases "m s")
  from keeps_resultsD[OF assms(1) m] have r1: "results s1 = results s" .
  show "results (snd (bind_st m f s)) = results s"
  proof (cases x)
    case (Inl e)
    with m r1 show ?thesis by (simp add: bind_st_def)
  next
    case (Inr v)
    obtain y s2 where f: "f v s1 = (y, s2)" by (cases "f v s1")
    from keeps_resultsD[OF assms(2) f] r1 m Inr f show ?thesis by (simp add: bind_st_def)
  qed
qed

lemma keeps_try:
  assumes "keeps_results m" and "\<And>e. keeps_results (h e)"
  shows "keeps_results (try_except m c h)"
  unfolding keeps_results_def
proof
  fix s
  obtain x s1 where m: "m s = (x, s1)" by (cases "m s")
  from keeps_resultsD[OF assms(1) m] have r1: "results s1 = results s" .
  show "results (snd (try_except m c h s)) = results s"
  proof (cases x)
    case (Inr v)
    with m r1 show ?thesis by (simp add: try_except_def)
  next
    case (Inl e)
    obtain y s2 where f: "h e s1 = (y, s2)" by (cases "h e s1")
    from keeps_resultsD[OF assms(2) f] r1 m Inl f show ?thesis by (simp add: try_except_def)
  qed
qed

lemma keeps_for_range:
  assumes "\<And>acc. keeps_results (body acc)"
  shows "keeps_results (for_range n body acc)"
  unfolding keeps_results_def
proof
  fix s
  show "results (snd (for_range n body acc s)) = results s"
  proof (induction n arbitrary: acc s)
    case 0
    then show ?case by simp
  next
    case (Suc n)
    obtain x s1 where b: "body acc s = (x, s1)" by (cases "body acc s")
    from keeps_resultsD[OF assms b] have "results s1 = results s" .
    with Suc b show ?case by (cases x) simp_all
  qed
qed

lemma keeps_for_each:
  assumes "\<And>x acc. keeps_results (body x acc)"
  shows "keeps_results (for_each xs body acc)"
  unfolding keeps_results_def
proof
  fix s
  show "results (snd (for_each xs body acc s)) = results s"
  proof (induction xs arbitrary: acc s)
    case Nil
    then show ?case by simp
  next
    case (Cons a xs)
    obtain x s1 where b: "body a acc s = (x, s1)" by (cases "body a acc s")
    from keeps_resultsD[OF assms b] have "results s1 = results s" .
    with Cons b show ?case by (cases x) simp_all
  qed
qed

lemma keeps_case_prod: "(\<And>a b. keeps_results (f a b)) \<Longrightarrow> keeps_results (case_prod f p)"
  by (cases p) simp

lemma keeps_if: "keeps_results a \<Longrightarrow> keeps_results b \<Longrightarrow> keeps_results (if c then a else b)"
  by simp

lemmas keeps_intros = keeps_bind keeps_try keeps_for_range keeps_for_each keeps_case_prod
  keeps_if keeps_return keeps_raise keeps_lift keeps_logger keeps_call keeps_read_world

lemma keeps_keygen: "keeps_results (keygen h)"
  unfolding keygen_def KEM_keygen_def Signature_keygen_def
  by (cases "h_class h") (auto intro!: keeps_intros)

lemma keeps_encaps: "keeps_results (encaps h pk)"
  unfolding encaps_def KEM_encaps_def
  by (cases "h_class h") (auto intro!: keeps_intros)

lemma keeps_decaps: "keeps_results (decaps h ct sk)"
  unfolding decaps_def KEM_decaps_def
  by (cases "h_class h") (auto intro!: keeps_intros)

lemma keeps_sign: "keeps_results (sign h msg sk)"
  unfolding sign_def Signature_sign_def
  by (cases "h_class h") (auto intro!: keeps_intros)

lemma keeps_verify: "keeps_results (verify h pk msg sg)"
  unfolding verify_def Signature_verify_def
  by (cases "h_class h") (auto intro!: keeps_intros)

lemma keeps_get_algorithm: "keeps_results (get_algorithm env ty nm impl)"
  unfolding get_algorithm_def CryptoAlgorithm_init_def load_module_def Let_def
  by (auto intro!: keeps_intros)

lemma keeps_run_warmup: "keeps_results (run_warmup alg n)"
  unfolding run_warmup_def
  by (intro keeps_intros keeps_keygen)

lemma keeps_keygen_trials: "keeps_results (keygen_trials env alg)"
  unfolding keygen_trials_def measure_time_def
  by (intro keeps_intros keeps_keygen)

lemma keeps_kem_trials: "keeps_results (kem_trials env alg pk sk)"
  unfolding kem_trials_def
  by (intro keeps_intros keeps_encaps keeps_decaps)

lemma keeps_sign_trials: "keeps_results (sign_trials env alg pk sk m)"
  unfolding sign_trials_def
  by (intro keeps_intros keeps_sign keeps_verify)

lemma keeps_run_micro_benchmarks: "keeps_results (run_micro_benchmarks_with calc env alg ty params)"
  unfolding run_micro_benchmarks_with_def
  by (intro keeps_intros keeps_keygen keeps_keygen_trials keeps_kem_trials keeps_sign_trials)


lemma benchmark_algorithm_failure_keeps_results:
  assumes "benchmark_algorithm env r ty it s = (Inl e, s')"
  shows "results s' = results s"
proof -
  let ?it = "item_name it" and ?impl = "item_implementation it"
  obtain x1 s1 where g: "get_algorithm env ty ?it ?impl s = (x1, s1)"
    by (cases "get_algorithm env ty ?it ?impl s")
  have r1: "results s1 = results s" by (rule keeps_resultsD[OF keeps_get_algorithm g])
  show ?thesis
  proof (cases x1)
    case (Inl e1)
    with assms g r1 show ?thesis by (simp add: benchmark_algorithm_def bind_st_def)
  next
    case alg: (Inr alg)
    obtain x2 s2 where w: "run_warmup alg (warmup_iterations (r_config r)) s1 = (x2, s2)"
      by (cases "run_warmup alg (warmup_iterations (r_config r)) s1")
    have r2: "results s2 = results s1" by (rule keeps_resultsD[OF keeps_run_warmup w])
    show ?thesis
    proof (cases x2)
      case (Inl e2)
      with assms g alg w r1 r2 show ?thesis by (simp add: benchmark_algorithm_def bind_st_def)
    next
      case u: (Inr u)
      obtain x3 s3 where m: "run_micro_benchmarks env alg ty it s2 = (x3, s3)"
        by (cases "run_micro_benchmarks env alg ty it s2")
      have r3: "results s3 = results s2"
        using keeps_resultsD[OF keeps_run_micro_benchmarks] m
        unfolding run_micro_benchmarks_def by blast
      show ?thesis
      proof (cases x3)
        case (Inl e3)
        with assms g alg w u m r1 r2 r3 show ?thesis
          by (simp add: benchmark_algorithm_def bind_st_def)
      next
        case (Inr res)
        with assms g alg w u m show ?thesis
          by (simp add: benchmark_algorithm_def bind_st_def)
      qed
    qed
  qed
qed

lemma for_each_append:
  "for_each (xs @ ys) body acc s =
     (case for_each xs body acc s of
        (Inl e, s') \<Rightarrow> (Inl e, s')
      | (Inr acc', s') \<Rightarrow> for_each ys body acc' s')"
proof (induction xs arbitrary: acc s)
  case Nil
  then show ?case by simp
next
  case (Cons a xs)
  then show ?case by (simp split: prod.splits sum.splits)
qed

lemma for_each_tagged:
  "for_each (map (Pair ty) its) (\<lambda>(alg_type, it) _. benchmark_algorithm env r alg_type it) u s
     = for_each its (\<lambda>it _. benchmark_algorithm env r ty it) u s"
  by (induction its arbitrary: u s) (simp_all split: prod.splits sum.splits)

lemma benchmark_all_tagged:
  "benchmark_all env r ty items s =
     benchmark_sequence env r (map (Pair ty) (case items of None \<Rightarrow> [] | Some its \<Rightarrow> its)) s"
  by (cases items) (simp_all add: benchmark_all_def benchmark_sequence_def for_each_tagged return_st_def)

lemma benchmark_phases_sequence:
  "bind_st (benchmark_all env r ''kem'' (algorithms_kem (r_config r)))
     (\<lambda>_. benchmark_all env r ''sign'' (algorithms_sign (r_config r))) s
   = benchmark_sequence env r (configured (r_config r)) s"
proof -
  have "benchmark_sequence env r (configured (r_config r)) s =
          (case benchmark_all env r ''kem'' (algorithms_kem (r_config r)) s of
             (Inl e, s') \<Rightarrow> (Inl e, s')
           | (Inr u, s') \<Rightarrow> benchmark_all env r ''sign'' (algorithms_sign (r_config r)) s')"
    unfolding configured_def benchmark_all_tagged
    by (simp add: benchmark_sequence_def for_each_append split: prod.splits sum.splits)
  then show ?thesis by (simp add: bind_st_def)
qed

lemma benchmark_sequence_stops:
  assumes pre: "benchmark_sequence env r pre s0 = (Inr (), s1)"
    and bad: "benchmark_algorithm env r ty bad s1 = (Inl e, s2)"
  shows "benchmark_sequence env r (pre @ (ty, bad) # post) s0 = (Inl e, s2)"
  using pre bad by (simp add: benchmark_sequence_def for_each_append)

lemma benchmark_phases_stops:
  assumes cfg: "configured (r_config r) = pre @ (ty, bad) # post"
    and pre: "benchmark_sequence env r pre s0 = (Inr (), s1)"
    and bad: "benchmark_algorithm env r ty bad s1 = (Inl e, s2)"
  shows "benchmark_phases env r s0 = (Inl e, s2)"
proof -
  have "benchmark_sequence env r (configured (r_config r)) s0 = (Inl e, s2)"
    unfolding cfg by (rule benchmark_sequence_stops[OF pre bad])
  then have "bind_st (benchmark_all env r ''kem'' (algorithms_kem (r_config r)))
     (\<lambda>_. benchmark_all env r ''sign'' (algorithms_sign (r_config r))) s0 = (Inl e, s2)"
    by (simp only: benchmark_phases_sequence)
  then show ?thesis
    unfolding benchmark_phases_def
    by (simp add: bind_st_def split: prod.splits sum.splits)
qed

lemma run_setup_returns: "fst (run_setup env r s) = Inr ()"
  by (simp add: run_setup_def monitor_start_def action_defs split: prod.splits)

lemma save_data_effect:
  "\<exists>s'. save_data path s = (Inr (), s') \<and> the_monitor s' = the_monitor s
        \<and> results s' = results s \<and> logged s' = logged s @ [Monitor_data_saved path]"
  by (simp add: save_data_def write_file_def action_defs)

lemma monitor_stop_effect:
  "\<exists>s'. monitor_stop env s = (Inr (), s') \<and> stop_event (the_monitor s')
        \<and> results s' = results s \<and> Monitor_stopped \<in> set (logged s')
        \<and> set (logged s) \<subseteq> set (logged s')"
proof -
  obtain ticks w where tk: "sampling_ticks env (world s) = (ticks, w)"
    by (cases "sampling_ticks env (world s)")
  show ?thesis
  proof (cases "output_file (the_monitor s)")
    case None
    then show ?thesis using tk
      by (cases "thread_started (the_monitor s)")
        (auto simp add: monitor_stop_def action_defs)
  next
    case (Some path)
    then show ?thesis using tk
      by (cases "thread_started (the_monitor s)"; cases "path = []")
        (auto simp add: monitor_stop_def save_data_def write_file_def action_defs)
  qed
qed


lemma finalize_effect:
  "\<exists>s2. finalize env r s1 = (Inr (), s2) \<and> stop_event (the_monitor s2)
        \<and> end_time (results s2) \<noteq> None
        \<and> micro_benchmarks (results s2) = micro_benchmarks (results s1)
        \<and> (\<exists>path. map_of (files s2) path = Some (Results_json (results s2)))
        \<and> Monitor_stopped \<in> set (logged s2)
        \<and> set (logged s1) \<subseteq> set (logged s2)"
proof -
  from monitor_stop_effect[of env s1] obtain sa where
    a: "monitor_stop env s1 = (Inr (), sa)" and a1: "stop_event (the_monitor sa)"
    and a2: "results sa = results s1" and a3: "Monitor_stopped \<in> set (logged sa)"
    and a4: "set (logged s1) \<subseteq> set (logged sa)" by blast
  obtain now wa where n: "datetime_now env (world sa) = (now, wa)"
    by (cases "datetime_now env (world sa)")
  obtain t wb where t: "time_time env wa = (t, wb)" by (cases "time_time env wa")
  let ?path = "r_output_dir r @ ''/benchmark_results_'' @ string_of_nat (nat \<lfloor>t\<rfloor>) @ ''.json''"
  obtain s2 where f: "finalize env r s1 = (Inr (), s2)"
    and m: "the_monitor s2 = the_monitor sa"
    and r: "results s2 = (results sa)\<lparr>end_time := Some now\<rparr>"
    and fl: "files s2 = AList.update ?path (Results_json ((results sa)\<lparr>end_time := Some now\<rparr>)) (files sa)"
    and l: "logged s2 = logged sa @ [Results_saved ?path]"
    using a n t by (simp add: finalize_def write_file_def action_defs Let_def)
  have "map_of (files s2) ?path = Some (Results_json (results s2))"
    by (simp add: fl r update_conv')
  then have p: "\<exists>path. map_of (files s2) path = Some (Results_json (results s2))" ..
  have c1: "stop_event (the_monitor s2)" using a1 m by simp
  have c2: "end_time (results s2) \<noteq> None" using r by simp
  have c3: "micro_benchmarks (results s2) = micro_benchmarks (results s1)"
    using a2 r by simp
  have c4: "Monitor_stopped \<in> set (logged s2)" using a3 l by simp
  have c5: "set (logged s1) \<subseteq> set (logged s2)" using a4 l by auto
  show ?thesis
    by (rule exI[of _ s2]) (intro conjI f c1 c2 c3 p c4 c5)
qed

lemma run_after_failure:
  assumes su: "run_setup env r s = (Inr (), s0)"
    and tb: "try_block env r s0 = Some (Inl e, s2)"
    and ex: "is_Exception e"
  shows "\<exists>s3. run env r s = Some (Inr (), s3)
        \<and> stop_event (the_monitor s3)
        \<and> end_time (results s3) \<noteq> None
        \<and> micro_benchmarks (results s3) = micro_benchmarks (results s2)
        \<and> (\<exists>path. map_of (files s3) path = Some (Results_json (results s3)))
        \<and> Benchmark_failed e \<in> set (logged s3)"
proof -
  let ?sl = "s2\<lparr>logged := logged s2 @ [Benchmark_failed e]\<rparr>"
  from finalize_effect[of env r ?sl] obtain s3 where
    f: "finalize env r ?sl = (Inr (), s3)" and c1: "stop_event (the_monitor s3)"
    and c2: "end_time (results s3) \<noteq> None"
    and c3: "micro_benchmarks (results s3) = micro_benchmarks (results ?sl)"
    and c4: "\<exists>path. map_of (files s3) path = Some (Results_json (results s3))"
    and c5: "set (logged ?sl) \<subseteq> set (logged s3)" by blast
  have ne: "e \<noteq> KeyboardInterrupt" using ex by auto
  have r: "run env r s = Some (Inr (), s3)"
    using su tb ex ne f by (simp add: run_def bind_st_def logger_def)
  have c3': "micro_benchmarks (results s3) = micro_benchmarks (results s2)" using c3 by simp
  have c6: "Benchmark_failed e \<in> set (logged s3)" using c5 by auto
  show ?thesis by (rule exI[of _ s3]) (intro conjI r c1 c2 c3' c4 c6)
qed

lemma run_after_interrupt:
  assumes su: "run_setup env r s = (Inr (), s0)"
    and tb: "try_block env r s0 = Some (Inl KeyboardInterrupt, s1)"
  shows "\<exists>s2. run env r s = Some (Inr (), s2)
        \<and> stop_event (the_monitor s2)
        \<and> Monitor_stopped \<in> set (logged s2)
        \<and> end_time (results s2) \<noteq> None
        \<and> micro_benchmarks (results s2) = micro_benchmarks (results s1)
        \<and> (\<exists>path. map_of (files s2) path = Some (Results_json (results s2)))
        \<and> Benchmark_interrupted \<in> set (logged s2)"
proof -
  let ?sl = "s1\<lparr>logged := logged s1 @ [Benchmark_interrupted]\<rparr>"
  from finalize_effect[of env r ?sl] obtain s2 where
    f: "finalize env r ?sl = (Inr (), s2)" and c1: "stop_event (the_monitor s2)"
    and c2: "end_time (results s2) \<noteq> None"
    and c3: "micro_benchmarks (results s2) = micro_benchmarks (results ?sl)"
    and c4: "\<exists>path. map_of (files s2) path = Some (Results_json (results s2))"
    and c7: "Monitor_stopped \<in> set (logged s2)"
    and c5: "set (logged ?sl) \<subseteq> set (logged s2)" by blast
  have r: "run env r s = Some (Inr (), s2)"
    using su tb f by (simp add: run_def bind_st_def logger_def)
  have c3': "micro_benchmarks (results s2) = micro_benchmarks (results s1)" using c3 by simp
  have c6: "Benchmark_interrupted \<in> set (logged s2)" using c5 by auto
  show ?thesis by (rule exI[of _ s2]) (intro conjI r c1 c7 c2 c3' c4 c6)
qed

lemma for_range_raises:
  assumes "\<And>acc s e s'. body acc s = (Inl e, s') \<Longrightarrow> P e"
    and "for_range n body acc s = (Inl e, s')"
  shows "P e"
  using assms(2)
proof (induction n arbitrary: acc s)
  case 0
  then show ?case by simp
next
  case (Suc n)
  obtain x s1 where b: "body acc s = (x, s1)" by (cases "body acc s")
  show ?case
  proof (cases x)
    case (Inl e1)
    with Suc.prems b have "e1 = e" by simp
    with assms(1)[of acc s e1 s1] b Inl show ?thesis by simp
  next
    case (Inr acc1)
    with Suc.prems b have "for_range n body acc1 s1 = (Inl e, s')" by simp
    then show ?thesis by (rule Suc.IH)
  qed
qed

text \<open>The warm-up swallows every exception that derives from \<^verbatim>\<open>Exception\<close>: what
  leaves it is a \<^verbatim>\<open>KeyboardInterrupt\<close> or a \<^verbatim>\<open>SystemExit\<close>.\<close>

lemma run_warmup_swallows:
  assumes "run_warmup alg n s = (Inl e, s')"
  shows "\<not> is_Exception e"
proof -
  let ?body = "\<lambda>_::unit. try_except (bind_st (keygen alg) (\<lambda>_. return_st ())) is_Exception
               (\<lambda>e. return_st ())"
  have b: "\<not> is_Exception e" if "?body acc s = (Inl e, s')" for acc s e s'
    using that by (auto simp: try_except_def return_st_def split: prod.splits sum.splits if_splits)
  from assms have fr: "for_range (nat n) ?body ()
      (snd (logger (Warming_up (h_name alg) n) s)) = (Inl e, s')"
    by (simp add: run_warmup_def bind_st_def logger_def)
  show ?thesis
    by (rule for_range_raises[where P = "\<lambda>e. \<not> is_Exception e" and body = ?body, OF b fr])
qed

lemma run_setup_no_results: "micro_benchmarks (results (snd (run_setup env r s))) = []"
  by (simp add: run_setup_def monitor_start_def action_defs split: prod.splits)

lemma benchmark_algorithm_success_results:
  assumes "benchmark_algorithm env r ty it s = (Inr u, s')"
  shows "\<exists>res. results s' = (results s)
           \<lparr>micro_benchmarks := AList.update (item_name it) res (micro_benchmarks (results s))\<rparr>"
proof -
  let ?it = "item_name it" and ?impl = "item_implementation it"
  obtain x1 s1 where g: "get_algorithm env ty ?it ?impl s = (x1, s1)"
    by (cases "get_algorithm env ty ?it ?impl s")
  have r1: "results s1 = results s" by (rule keeps_resultsD[OF keeps_get_algorithm g])
  show ?thesis
  proof (cases x1)
    case (Inl e1)
    with assms g show ?thesis by (simp add: benchmark_algorithm_def bind_st_def)
  next
    case alg: (Inr alg)
    obtain x2 s2 where w: "run_warmup alg (warmup_iterations (r_config r)) s1 = (x2, s2)"
      by (cases "run_warmup alg (warmup_iterations (r_config r)) s1")
    have r2: "results s2 = results s1" by (rule keeps_resultsD[OF keeps_run_warmup w])
    show ?thesis
    proof (cases x2)
      case (Inl e2)
      with assms g alg w show ?thesis by (simp add: benchmark_algorithm_def bind_st_def)
    next
      case u: (Inr u2)
      obtain x3 s3 where m: "run_micro_benchmarks env alg ty it s2 = (x3, s3)"
        by (cases "run_micro_benchmarks env alg ty it s2")
      have r3: "results s3 = results s2"
        using keeps_resultsD[OF keeps_run_micro_benchmarks] m
        unfolding run_micro_benchmarks_def by blast
      show ?thesis
      proof (cases x3)
        case (Inl e3)
        with assms g alg w u m show ?thesis
          by (simp add: benchmark_algorithm_def bind_st_def)
      next
        case (Inr res)
        with assms g alg w u m have
          "s' = s3\<lparr>results := (results s3)
              \<lparr>micro_benchmarks := AList.update ?it res (micro_benchmarks (results s3))\<rparr>\<rparr>"
          by (simp add: benchmark_algorithm_def bind_st_def)
        then have "results s' = (results s)
           \<lparr>micro_benchmarks := AList.update ?it res (micro_benchmarks (results s))\<rparr>"
          using r1 r2 r3 by simp
        then show ?thesis ..
      qed
    qed
  qed
qed

lemma benchmark_algorithm_success_keys:
  assumes "benchmark_algorithm env r ty it s = (Inr u, s')"
  shows "fst ` set (micro_benchmarks (results s'))
           = insert (item_name it) (fst ` set (micro_benchmarks (results s)))"
proof -
  from benchmark_algorithm_success_results[OF assms] obtain res where
    "results s' = (results s)
       \<lparr>micro_benchmarks := AList.update (item_name it) res (micro_benchmarks (results s))\<rparr>" ..
  then show ?thesis by (simp add: dom_update)
qed

lemma benchmark_sequence_keys:
  "benchmark_sequence env r tagged s = (Inr u, s') \<Longrightarrow>
   fst ` set (micro_benchmarks (results s'))
     = fst ` set (micro_benchmarks (results s)) \<union> (\<lambda>(ty, it). item_name it) ` set tagged"
proof (induction tagged arbitrary: s)
  case Nil
  then show ?case by (simp add: benchmark_sequence_def)
next
  case (Cons a tagged)
  obtain ty it where a: "a = (ty, it)" by (cases a)
  obtain x s1 where b: "benchmark_algorithm env r ty it s = (x, s1)"
    by (cases "benchmark_algorithm env r ty it s")
  show ?case
  proof (cases x)
    case (Inl e)
    with Cons.prems a b show ?thesis by (simp add: benchmark_sequence_def)
  next
    case (Inr v)
    with Cons.prems a b have rest: "benchmark_sequence env r tagged s1 = (Inr u, s')"
      by (simp add: benchmark_sequence_def)
    from b Inr have k: "fst ` set (micro_benchmarks (results s1))
           = insert (item_name it) (fst ` set (micro_benchmarks (results s)))"
      using benchmark_algorithm_success_keys by blast
    from Cons.IH[OF rest] k a show ?thesis by auto
  qed
qed

lemma run_warmup_reliable:
  assumes r: "reliable_kem alg"
  shows "\<exists>s'. run_warmup alg n s = (Inr (), s')"
proof -
  let ?body = "\<lambda>_::unit. try_except (bind_st (keygen alg) (\<lambda>_. return_st ())) is_Exception
               (\<lambda>e. return_st ())"
  have step: "\<exists>acc' s'. ?body acc s = (Inr acc', s') \<and> True"
    if "True" for acc and s :: "'a state" and k :: nat
  proof -
    from keygen_reliable[OF r, of s] obtain pk sk s1 where
      "keygen alg s = (Inr (pk, sk), s1)" by blast
    then show ?thesis by (simp add: action_defs)
  qed
  from for_range_invariant[where I = "\<lambda>k acc. True" and body = ?body and k = 0
      and acc = "()" and n = "nat n"
      and s = "snd (logger (Warming_up (h_name alg) n) s)", OF step]
  show ?thesis by (auto simp add: run_warmup_def bind_st_def logger_def)
qed

lemma run_micro_benchmarks_reliable:
  assumes "reliable_kem alg" and "payload_sizes params = Some [32]"
  shows "\<exists>res s'. run_micro_benchmarks env alg ''kem'' params s = (Inr res, s')"
proof -
  from kem_32_sample_counts[OF assms, of env s] obtain res where
    "fst (run_micro_benchmarks env alg ''kem'' params s) = Inr res" by blast
  then show ?thesis by (cases "run_micro_benchmarks env alg ''kem'' params s") auto
qed

lemma kyber768_benchmarked:
  "fst (benchmark_algorithm stdlib_env r ''kem'' kyber_item s) = Inr ()"
proof -
  obtain s1 where g: "get_algorithm stdlib_env ''kem'' ''Kyber768'' ''pqcrypto'' s
                        = (Inr kyber_handle, s1)"
    by (simp add: get_algorithm_def lower_def CryptoAlgorithm_init_def load_module_def
        mapping_get_def PQCRYPTO_MAPPING_def action_defs stdlib_env_def Let_def kyber_handle_def)
  from run_warmup_reliable[OF reliable_kyber_handle] obtain s2 where
    w: "run_warmup kyber_handle (warmup_iterations (r_config r)) s1 = (Inr (), s2)" by blast
  from run_micro_benchmarks_reliable[OF reliable_kyber_handle kyber_item_sizes] obtain res s3
    where m: "run_micro_benchmarks stdlib_env kyber_handle ''kem'' kyber_item s2 = (Inr res, s3)"
    by blast
  have n: "item_name kyber_item = ''Kyber768''" "item_implementation kyber_item = ''pqcrypto''"
    by (simp_all add: kyber_item_def)
  show ?thesis using g w m
    by (simp add: benchmark_algorithm_def bind_st_def n)
qed

lemma kyber768_sequence:
  "fst (benchmark_sequence stdlib_env r [(''kem'', kyber_item)] s) = Inr ()"
  using kyber768_benchmarked[of r s]
  by (cases "benchmark_algorithm stdlib_env r ''kem'' kyber_item s")
     (simp add: benchmark_sequence_def)

lemma abandon_after_failure:
  assumes cfg: "configured (r_config r) = pre @ (ty, bad) # post"
    and pre: "benchmark_sequence env r pre (snd (run_setup env r s)) = (Inr (), s1)"
    and bad: "fst (benchmark_algorithm env r ty bad s1) = Inl e"
    and ex: "is_Exception e"
  shows "\<exists>s3. try_block env r (snd (run_setup env r s))
              = Some (Inl e, snd (benchmark_algorithm env r ty bad s1))
        \<and> run env r s = Some (Inr (), s3)
        \<and> Benchmark_failed e \<in> set (logged s3)
        \<and> micro_benchmarks (results s3) = micro_benchmarks (results s1)
        \<and> fst ` set (micro_benchmarks (results s3)) = (\<lambda>(ty, it). item_name it) ` set pre
        \<and> stop_event (the_monitor s3)
        \<and> end_time (results s3) \<noteq> None
        \<and> (\<exists>path. map_of (files s3) path = Some (Results_json (results s3)))"
proof -
  let ?s0 = "snd (run_setup env r s)" and ?s2 = "snd (benchmark_algorithm env r ty bad s1)"
  have su: "run_setup env r s = (Inr (), ?s0)"
    using run_setup_returns[of env r s] by (cases "run_setup env r s") simp
  have b: "benchmark_algorithm env r ty bad s1 = (Inl e, ?s2)"
    using bad by (cases "benchmark_algorithm env r ty bad s1") simp
  have ph: "benchmark_phases env r ?s0 = (Inl e, ?s2)"
    by (rule benchmark_phases_stops[OF cfg pre b])
  have tb: "try_block env r ?s0 = Some (Inl e, ?s2)"
    by (simp add: try_block_def ph)
  have keep: "results ?s2 = results s1"
    by (rule benchmark_algorithm_failure_keeps_results[OF b])
  from run_after_failure[OF su tb ex] obtain s3 where
    r: "run env r s = Some (Inr (), s3)" and c1: "stop_event (the_monitor s3)"
    and c2: "end_time (results s3) \<noteq> None"
    and c3: "micro_benchmarks (results s3) = micro_benchmarks (results ?s2)"
    and c4: "\<exists>path. map_of (files s3) path = Some (Results_json (results s3))"
    and c6: "Benchmark_failed e \<in> set (logged s3)" by blast
  have c3': "micro_benchmarks (results s3) = micro_benchmarks (results s1)"
    using c3 keep by simp
  have "fst ` set (micro_benchmarks (results s1))
          = fst ` set (micro_benchmarks (results ?s0)) \<union> (\<lambda>(ty, it). item_name it) ` set pre"
    by (rule benchmark_sequence_keys[OF pre])
  then have keys: "fst ` set (micro_benchmarks (results s3)) = (\<lambda>(ty, it). item_name it) ` set pre"
    by (simp add: c3' run_setup_no_results)
  show ?thesis by (rule exI[of _ s3]) (intro conjI tb r c6 c3' keys c1 c2 c4)
qed

lemma kyber512_fails_to_load:
  "fst (benchmark_algorithm stdlib_env r ''kem'' kyber512_item s) = Inl ImportError"
  by (simp add: benchmark_algorithm_def get_algorithm_def lower_def CryptoAlgorithm_init_def
      load_module_def mapping_get_def PQCRYPTO_MAPPING_def action_defs stdlib_env_def
      kyber512_item_def is_ImportError_def Let_def)

lemma two_kem_configured:
  "configured (r_config two_kem_runner) = [] @ (''kem'', kyber512_item) # [(''kem'', kyber_item)]"
  by (simp add: configured_def two_kem_runner_def empty_config_def)

lemma kyber768_loads:
  "map_sum id h_name
     (fst (get_algorithm stdlib_env ''kem'' ''Kyber768'' ''pqcrypto'' initial_state))
     = Inr ''Kyber768''"
  by (simp add: get_algorithm_def lower_def CryptoAlgorithm_init_def load_module_def
      mapping_get_def PQCRYPTO_MAPPING_def action_defs stdlib_env_def initial_state_def Let_def)

text \<open>
  C1, as stated: after one algorithm fails, the engine goes on to the next configured
  algorithm, which still appears in the result document. It does not: with Kyber512 (not
  installed) configured before Kyber768 (installed), the run ends normally with a result
  document that holds no algorithm at all.
\<close>

theorem remaining_algorithms_counterexample:
  "map_option (\<lambda>(res, s). (res, map fst (micro_benchmarks (results s))))
     (run stdlib_env two_kem_runner initial_state) = Some (Inr (), [])
   \<and> map_sum id h_name
        (fst (get_algorithm stdlib_env ''kem'' ''Kyber768'' ''pqcrypto'' initial_state))
       = Inr ''Kyber768''"
proof -
  let ?s0 = "snd (run_setup stdlib_env two_kem_runner initial_state)"
  have pre: "benchmark_sequence stdlib_env two_kem_runner [] ?s0 = (Inr (), ?s0)"
    by (simp add: benchmark_sequence_def)
  have ex: "is_Exception ImportError" by simp
  from abandon_after_failure[OF two_kem_configured pre kyber512_fails_to_load ex]
  obtain s3 where r: "run stdlib_env two_kem_runner initial_state = Some (Inr (), s3)"
    and m: "micro_benchmarks (results s3) = micro_benchmarks (results ?s0)" by blast
  have a: "map_option (\<lambda>(res, s). (res, map fst (micro_benchmarks (results s))))
     (run stdlib_env two_kem_runner initial_state) = Some (Inr (), [])"
    by (simp add: r m run_setup_no_results)
  show ?thesis by (rule conjI[OF a kyber768_loads])
qed

text \<open>
  C1, amended: if one configured algorithm fails with an exception that derives from
  \<^verbatim>\<open>Exception\<close> (its provider fails to load, or a timed call raises during its
  micro-benchmark phase), the \<^verbatim>\<open>try\<close> block of \<^verbatim>\<open>run\<close> ends there: the error is
  logged as a failed benchmark, the remaining configured algorithms and the stability phase
  are not run, and \<^verbatim>\<open>run\<close> finalizes and returns normally; the keys of the persisted
  result document are exactly the names of the algorithms completed before the failure.
\<close>

theorem failure_abandons_remaining:
  assumes "configured (r_config r) = pre @ (ty, bad) # post"
    and "benchmark_sequence env r pre (snd (run_setup env r s)) = (Inr (), s1)"
    and "fst (benchmark_algorithm env r ty bad s1) = Inl e"
    and "is_Exception e"
  shows "\<exists>s3. try_block env r (snd (run_setup env r s))
              = Some (Inl e, snd (benchmark_algorithm env r ty bad s1))
        \<and> run env r s = Some (Inr (), s3)
        \<and> Benchmark_failed e \<in> set (logged s3)
        \<and> micro_benchmarks (results s3) = micro_benchmarks (results s1)
        \<and> fst ` set (micro_benchmarks (results s3)) = (\<lambda>(ty, it). item_name it) ` set pre
        \<and> stop_event (the_monitor s3)
        \<and> end_time (results s3) \<noteq> None
        \<and> (\<exists>path. map_of (files s3) path = Some (Results_json (results s3)))"
  using assms by (rule abandon_after_failure)

theorem failure_abandons_remaining_witness:
  "configured (r_config three_kem_runner)
     = [(''kem'', kyber_item)] @ (''kem'', kyber512_item) # [(''kem'', ml_kem_512_item)]
   \<and> benchmark_sequence stdlib_env three_kem_runner [(''kem'', kyber_item)]
        (snd (run_setup stdlib_env three_kem_runner initial_state))
       = (Inr (), snd (benchmark_sequence stdlib_env three_kem_runner [(''kem'', kyber_item)]
                        (snd (run_setup stdlib_env three_kem_runner initial_state))))
   \<and> fst (benchmark_algorithm stdlib_env three_kem_runner ''kem'' kyber512_item
             (snd (benchmark_sequence stdlib_env three_kem_runner [(''kem'', kyber_item)]
                     (snd (run_setup stdlib_env three_kem_runner initial_state)))))
       = Inl ImportError
   \<and> is_Exception ImportError
   \<and> (\<exists>s3. try_block stdlib_env three_kem_runner
                (snd (run_setup stdlib_env three_kem_runner initial_state))
              = Some (Inl ImportError,
                      snd (benchmark_algorithm stdlib_env three_kem_runner ''kem'' kyber512_item
                             (snd (benchmark_sequence stdlib_env three_kem_runner
                                     [(''kem'', kyber_item)]
                                     (snd (run_setup stdlib_env three_kem_runner
                                             initial_state))))))
        \<and> run stdlib_env three_kem_runner initial_state = Some (Inr (), s3)
        \<and> Benchmark_failed ImportError \<in> set (logged s3)
        \<and> micro_benchmarks (results s3)
            = micro_benchmarks (results
                (snd (benchmark_sequence stdlib_env three_kem_runner [(''kem'', kyber_item)]
                        (snd (run_setup stdlib_env three_kem_runner initial_state)))))
        \<and> fst ` set (micro_benchmarks (results s3))
            = (\<lambda>(ty, it). item_name it) ` set [(''kem'', kyber_item)]
        \<and> stop_event (the_monitor s3)
        \<and> end_time (results s3) \<noteq> None
        \<and> (\<exists>path. map_of (files s3) path = Some (Results_json (results s3))))"
proof -
  let ?s0 = "snd (run_setup stdlib_env three_kem_runner initial_state)"
  let ?s1 = "snd (benchmark_sequence stdlib_env three_kem_runner [(''kem'', kyber_item)] ?s0)"
  have c: "configured (r_config three_kem_runner)
     = [(''kem'', kyber_item)] @ (''kem'', kyber512_item) # [(''kem'', ml_kem_512_item)]"
    by (simp add: configured_def three_kem_runner_def empty_config_def)
  have "fst (benchmark_sequence stdlib_env three_kem_runner [(''kem'', kyber_item)] ?s0)
          = Inr ()"
    by (rule kyber768_sequence)
  then have pre: "benchmark_sequence stdlib_env three_kem_runner [(''kem'', kyber_item)] ?s0
                    = (Inr (), ?s1)"
    by (cases "benchmark_sequence stdlib_env three_kem_runner [(''kem'', kyber_item)] ?s0")
       simp
  have bad: "fst (benchmark_algorithm stdlib_env three_kem_runner ''kem'' kyber512_item ?s1)
               = Inl ImportError"
    by (simp add: benchmark_algorithm_def get_algorithm_def lower_def CryptoAlgorithm_init_def
      load_module_def mapping_get_def PQCRYPTO_MAPPING_def action_defs stdlib_env_def
      kyber512_item_def is_ImportError_def Let_def)
  have ex: "is_Exception ImportError" by simp
  show ?thesis
    by (intro conjI c pre bad ex failure_abandons_remaining[OF c pre bad ex])
qed

text \<open>
  C8. If a \<^verbatim>\<open>KeyboardInterrupt\<close> leaves the \<^verbatim>\<open>try\<close> block of \<^verbatim>\<open>run\<close>, whichever
  benchmark phase raised it, the run logs the interruption and the finalize step executes:
  the monitor is stopped, the end time is stamped into the metadata, and the result
  document, with the micro-benchmark records gathered up to the interruption, is written
  to the output file; \<^verbatim>\<open>run\<close> returns normally.
\<close>

theorem interrupt_still_finalizes:
  assumes "map_option fst (try_block env r (snd (run_setup env r s))) = Some (Inl KeyboardInterrupt)"
  shows "\<exists>s1 s2. try_block env r (snd (run_setup env r s)) = Some (Inl KeyboardInterrupt, s1)
        \<and> run env r s = Some (Inr (), s2)
        \<and> stop_event (the_monitor s2)
        \<and> Monitor_stopped \<in> set (logged s2)
        \<and> end_time (results s2) \<noteq> None
        \<and> micro_benchmarks (results s2) = micro_benchmarks (results s1)
        \<and> (\<exists>path. map_of (files s2) path = Some (Results_json (results s2)))
        \<and> Benchmark_interrupted \<in> set (logged s2)"
proof -
  let ?s0 = "snd (run_setup env r s)"
  have su: "run_setup env r s = (Inr (), ?s0)"
    using run_setup_returns[of env r s] by (cases "run_setup env r s") simp
  from assms obtain s1 where tb: "try_block env r ?s0 = Some (Inl KeyboardInterrupt, s1)"
    by (cases "try_block env r ?s0") auto
  from run_after_interrupt[OF su tb] obtain s2 where
    c: "run env r s = Some (Inr (), s2)
        \<and> stop_event (the_monitor s2)
        \<and> Monitor_stopped \<in> set (logged s2)
        \<and> end_time (results s2) \<noteq> None
        \<and> micro_benchmarks (results s2) = micro_benchmarks (results s1)
        \<and> (\<exists>path. map_of (files s2) path = Some (Results_json (results s2)))
        \<and> Benchmark_interrupted \<in> set (logged s2)" ..
  show ?thesis by (rule exI[of _ s1], rule exI[of _ s2]) (rule conjI[OF tb c])
qed

theorem interrupt_still_finalizes_witness:
  "map_option fst (try_block stdlib_env interrupted_runner
      (snd (run_setup stdlib_env interrupted_runner initial_state)))
     = Some (Inl KeyboardInterrupt)
   \<and> (\<exists>s1 s2. try_block stdlib_env interrupted_runner
                  (snd (run_setup stdlib_env interrupted_runner initial_state))
                = Some (Inl KeyboardInterrupt, s1)
        \<and> run stdlib_env interrupted_runner initial_state = Some (Inr (), s2)
        \<and> stop_event (the_monitor s2)
        \<and> Monitor_stopped \<in> set (logged s2)
        \<and> end_time (results s2) \<noteq> None
        \<and> micro_benchmarks (results s2) = micro_benchmarks (results s1)
        \<and> (\<exists>path. map_of (files s2) path = Some (Results_json (results s2)))
        \<and> Benchmark_interrupted \<in> set (logged s2))"
proof -
  have h: "map_option fst (try_block stdlib_env interrupted_runner
      (snd (run_setup stdlib_env interrupted_runner initial_state)))
     = Some (Inl KeyboardInterrupt)"
    by (simp add: try_block_def benchmark_phases_def benchmark_all_def benchmark_algorithm_def
      interrupted_runner_def empty_config_def ml_kem_item_def
      get_algorithm_def lower_def CryptoAlgorithm_init_def
      load_module_def mapping_get_def PQCRYPTO_MAPPING_def action_defs stdlib_env_def
      is_ImportError_def Let_def run_warmup_def keygen_def KEM_keygen_def getattr_def
      interrupted_kem_def counting_kem_def eval_nat_numeral)
  show ?thesis by (rule conjI[OF h interrupt_still_finalizes[OF h]])
qed

end
